theory Spec2Isabelle
  imports Main "HOL-Library.Multiset"
begin

section \<open>Go errors\<close>

text \<open>
  A Go \<open>error\<close> value is modelled by its message and its \<open>Unwrap\<close> chain.
  \<open>ErrUnavailable\<close> is the sentinel \<open>errdefs.ErrUnavailable\<close>, whose message is
  \<open>unavailable\<close>; \<open>Leaf m\<close> is any other error that wraps nothing, and
  \<open>Wrapf m e\<close> is the result of \<open>fmt.Errorf\<close> with one \<open>%w\<close> verb: \<open>m\<close> is the
  formatted message and \<open>e\<close> the wrapped error.
\<close>

datatype error = ErrUnavailable | Leaf string | Wrapf string error

fun Error_msg :: "error \<Rightarrow> string" where
  "Error_msg ErrUnavailable = ''unavailable''"
| "Error_msg (Leaf m) = m"
| "Error_msg (Wrapf m e) = m"

text \<open>\<open>errors.Is\<close>: the target is compared with every error of the \<open>Unwrap\<close> chain.\<close>

fun errors_Is :: "error \<Rightarrow> error \<Rightarrow> bool" where
  "errors_Is (Wrapf m e) target = (Wrapf m e = target \<or> errors_Is e target)"
| "errors_Is err target = (err = target)"

section \<open>Library formatting and parsing, taken as parameters\<close>

text \<open>
  The functions of the Go standard library and of pflag that turn text into values, or
  values into text, and whose tables are not part of the repository:
  \<open>quote\<close> is the \<open>%q\<close> verb on a string (\<open>strconv.Quote\<close>), \<open>readAsCSV\<close> is pflag's
  parser of a comma-separated value, \<open>ParseFloat\<close> is \<open>strconv.ParseFloat(s, 64)\<close>, which
  returns a value also when it fails. \<open>'f\<close> is the type of \<open>float64\<close> values.
\<close>

record 'f conv =
  quote :: "string \<Rightarrow> string"
  readAsCSV :: "string \<Rightarrow> error + string list"
  ParseFloat :: "string \<Rightarrow> 'f \<times> error option"

text \<open>\<open>strconv.ParseBool\<close>.\<close>

definition ParseBool :: "string \<Rightarrow> bool option" where
  "ParseBool str =
     (if str \<in> set [''1'', ''t'', ''T'', ''true'', ''TRUE'', ''True''] then Some True
      else if str \<in> set [''0'', ''f'', ''F'', ''false'', ''FALSE'', ''False''] then Some False
      else None)"

section \<open>The flag set (github.com/spf13/pflag)\<close>

text \<open>
  The command's flags live in a \<open>pflag.FlagSet\<close>, looked up by name. A flag holds a typed
  value and the \<open>Changed\<close> mark. The four kinds of value are the kinds that \<open>NewCommand\<close>
  registers (\<open>flags.Bool\<close>, \<open>flags.String\<close>, \<open>flags.StringSlice\<close>, \<open>flags.Float64\<close>).
  No flag of this command has a shorthand or a deprecation notice.
\<close>

datatype 'f flag_value =
    BoolValue bool
  | StringValue string
  | StringSliceValue "string list"
  | Float64Value 'f

fun Type :: "'f flag_value \<Rightarrow> string" where
  "Type (BoolValue b) = ''bool''"
| "Type (StringValue s) = ''string''"
| "Type (StringSliceValue xs) = ''stringSlice''"
| "Type (Float64Value x) = ''float64''"

record 'f Flag =
  Value :: "'f flag_value"
  Changed :: bool

type_synonym 'f FlagSet = "string \<rightharpoonup> 'f Flag"

text \<open>
  \<open>FlagSet.getFlagType\<close>: the flag must exist and have the type asked for.
\<close>

definition getFlagType :: "'f FlagSet \<Rightarrow> string \<Rightarrow> string \<Rightarrow> error + 'f flag_value" where
  "getFlagType f name ftype =
     (case f name of
        None \<Rightarrow> Inl (Leaf (''flag accessed but not defined: '' @ name))
      | Some flag \<Rightarrow>
          if Type (Value flag) \<noteq> ftype
          then Inl (Leaf (''trying to get '' @ ftype @ '' value of flag of type '' @ Type (Value flag)))
          else Inr (Value flag))"

text \<open>
  The typed getters return a pair, as in Go: the value and the error. On an error the
  value is the zero value of its type. The last case of each getter is never reached,
  since \<open>getFlagType\<close> has compared the types.
\<close>

definition GetBool :: "'f FlagSet \<Rightarrow> string \<Rightarrow> bool \<times> error option" where
  "GetBool f name =
     (case getFlagType f name ''bool'' of
        Inl err \<Rightarrow> (False, Some err)
      | Inr (BoolValue b) \<Rightarrow> (b, None)
      | Inr _ \<Rightarrow> (False, Some (Leaf ''not a bool value'')))"

definition GetString :: "'f FlagSet \<Rightarrow> string \<Rightarrow> string \<times> error option" where
  "GetString f name =
     (case getFlagType f name ''string'' of
        Inl err \<Rightarrow> ('''', Some err)
      | Inr (StringValue s) \<Rightarrow> (s, None)
      | Inr _ \<Rightarrow> ('''', Some (Leaf ''not a string value'')))"

definition GetStringSlice :: "'f FlagSet \<Rightarrow> string \<Rightarrow> string list \<times> error option" where
  "GetStringSlice f name =
     (case getFlagType f name ''stringSlice'' of
        Inl err \<Rightarrow> ([], Some err)
      | Inr (StringSliceValue xs) \<Rightarrow> (xs, None)
      | Inr _ \<Rightarrow> ([], Some (Leaf ''not a stringSlice value'')))"

definition GetFloat64 :: "'f::zero FlagSet \<Rightarrow> string \<Rightarrow> 'f \<times> error option" where
  "GetFloat64 f name =
     (case getFlagType f name ''float64'' of
        Inl err \<Rightarrow> (0, Some err)
      | Inr (Float64Value x) \<Rightarrow> (x, None)
      | Inr _ \<Rightarrow> (0, Some (Leaf ''not a float64 value'')))"

text \<open>
  \<open>Value.Set\<close> of each kind: the new value and the error. A bool and a float64 are
  assigned what the parser returned also when it failed; a string slice is replaced by
  the first \<open>Set\<close> and extended by the later ones.
\<close>

definition value_Set :: "'f conv \<Rightarrow> 'f Flag \<Rightarrow> string \<Rightarrow> 'f flag_value \<times> error option" where
  "value_Set cv flag s =
     (case Value flag of
        BoolValue b \<Rightarrow>
          (case ParseBool s of
             Some v \<Rightarrow> (BoolValue v, None)
           | None \<Rightarrow> (BoolValue False,
               Some (Leaf (''strconv.ParseBool: parsing '' @ quote cv s @ '': invalid syntax''))))
      | StringValue old \<Rightarrow> (StringValue s, None)
      | StringSliceValue xs \<Rightarrow>
          (case readAsCSV cv s of
             Inl err \<Rightarrow> (StringSliceValue xs, Some err)
           | Inr rv \<Rightarrow> (StringSliceValue (if Changed flag then xs @ rv else rv), None))
      | Float64Value x \<Rightarrow>
          (case ParseFloat cv s of (v, err) \<Rightarrow> (Float64Value v, err)))"

text \<open>
  \<open>FlagSet.Set\<close>: the error and the flag set afterwards (the flag set is mutated in
  place, so the caller sees it whatever the error).
\<close>

definition Set :: "'f conv \<Rightarrow> 'f FlagSet \<Rightarrow> string \<Rightarrow> string \<Rightarrow> error option \<times> 'f FlagSet" where
  "Set cv f name val =
     (case f name of
        None \<Rightarrow> (Some (Leaf (''no such flag -'' @ name)), f)
      | Some flag \<Rightarrow>
          (case value_Set cv flag val of
             (v, Some err) \<Rightarrow>
               (Some (Leaf (''invalid argument '' @ quote cv val @ '' for '' @
                            quote cv (''--'' @ name) @ '' flag: '' @ Error_msg err)),
                f(name \<mapsto> flag\<lparr>Value := v\<rparr>))
           | (v, None) \<Rightarrow> (None, f(name \<mapsto> flag\<lparr>Value := v, Changed := True\<rparr>))))"

section \<open>NewCommand: the registry and PreRunE\<close>

text \<open>
  The flags that \<open>NewCommand\<close> registers (diff.go, lines 93 to 116), each with the type of
  its value. \<open>flagutil.AddPlatformFlags\<close> adds further flags, which no alias touches.
\<close>

definition registry :: "(string \<times> string) list" where
  "registry =
     [(''ignore-timestamps'', ''bool''),
      (''ignore-history'', ''bool''),
      (''ignore-file-order'', ''bool''),
      (''ignore-file-mode-redundant-bits'', ''bool''),
      (''ignore-file-timestamps'', ''bool''),
      (''ignore-file-mtime'', ''bool''),
      (''ignore-file-atime'', ''bool''),
      (''ignore-file-ctime'', ''bool''),
      (''extra-ignore-file-permissions'', ''bool''),
      (''extra-ignore-file-mode'', ''bool''),
      (''extra-ignore-file-content'', ''bool''),
      (''extra-ignore-layer-length-mismatch'', ''bool''),
      (''extra-ignore-files'', ''stringSlice''),
      (''ignore-image-timestamps'', ''bool''),
      (''ignore-image-name'', ''bool''),
      (''ignore-tar-format'', ''bool''),
      (''treat-canonical-paths-equal'', ''bool''),
      (''semantic'', ''bool''),
      (''verbose'', ''bool''),
      (''report-file'', ''string''),
      (''report-dir'', ''string''),
      (''pull'', ''string''),
      (''max-scale'', ''float64'')]"

text \<open>A flag set of this command: every registered flag is there, with its type.\<close>

definition hasType :: "'f FlagSet \<Rightarrow> string \<times> string \<Rightarrow> bool" where
  "hasType f nt = (case f (fst nt) of None \<Rightarrow> False | Some flag \<Rightarrow> Type (Value flag) = snd nt)"

definition registered :: "'f FlagSet \<Rightarrow> bool" where
  "registered f = list_all (hasType f) registry"

text \<open>
  The loop \<open>for _, f := range flagNames { if err := flags.Set(f, "true"); err != nil
  { return err } }\<close>.
\<close>

fun setAll :: "'f conv \<Rightarrow> 'f FlagSet \<Rightarrow> string list \<Rightarrow> error option \<times> 'f FlagSet" where
  "setAll cv flags [] = (None, flags)"
| "setAll cv flags (f # flagNames) =
     (case Set cv flags f ''true'' of
        (Some err, flags') \<Rightarrow> (Some err, flags')
      | (None, flags') \<Rightarrow> setAll cv flags' flagNames)"

text \<open>
  \<open>PreRunE\<close> (diff.go, lines 38 to 85): three blocks in a fixed order. The error of the
  \<open>GetBool\<close> that reads an alias is dropped (\<open>semantic, _ := ...\<close>). The result is the
  returned error and the flag set as the run left it.
\<close>

definition PreRunE :: "'f conv \<Rightarrow> 'f FlagSet \<Rightarrow> error option \<times> 'f FlagSet" where
  "PreRunE cv flags =
     (case (if fst (GetBool flags ''semantic'')
            then setAll cv flags
                   [''ignore-history'',
                    ''ignore-file-order'',
                    ''ignore-file-mode-redundant-bits'',
                    ''ignore-file-mtime'',
                    ''ignore-file-atime'',
                    ''ignore-file-ctime'',
                    ''ignore-image-timestamps'',
                    ''ignore-image-name'',
                    ''ignore-tar-format'',
                    ''treat-canonical-paths-equal'']
            else (None, flags)) of
        (Some err, flags1) \<Rightarrow> (Some err, flags1)
      | (None, flags1) \<Rightarrow>
     (case (if fst (GetBool flags1 ''ignore-timestamps'')
            then setAll cv flags1
                   [''ignore-file-mtime'',
                    ''ignore-file-atime'',
                    ''ignore-file-ctime'',
                    ''ignore-image-timestamps'']
            else (None, flags1)) of
        (Some err, flags2) \<Rightarrow> (Some err, flags2)
      | (None, flags2) \<Rightarrow>
     (case (if fst (GetBool flags2 ''ignore-file-timestamps'')
            then setAll cv flags2
                   [''ignore-file-mtime'',
                    ''ignore-file-atime'',
                    ''ignore-file-ctime'']
            else (None, flags2)) of
        (Some err, flags3) \<Rightarrow> (Some err, flags3)
      | (None, flags3) \<Rightarrow> (None, flags3))))"

subsection \<open>The alias rules as data, for the statement about their order\<close>

text \<open>
  The table of section 4.1 of the specification: an alias flag and the flags it expands
  to. \<open>resolveInOrder\<close> applies a list of such rules from left to right, each one as a
  block of \<open>PreRunE\<close> does.
\<close>

type_synonym aliasRule = "string \<times> string list"

definition semanticAlias :: aliasRule where
  "semanticAlias =
     (''semantic'',
      [''ignore-history'', ''ignore-file-order'', ''ignore-file-mode-redundant-bits'',
       ''ignore-file-mtime'', ''ignore-file-atime'', ''ignore-file-ctime'',
       ''ignore-image-timestamps'', ''ignore-image-name'', ''ignore-tar-format'',
       ''treat-canonical-paths-equal''])"

definition ignoreTimestampsAlias :: aliasRule where
  "ignoreTimestampsAlias =
     (''ignore-timestamps'',
      [''ignore-file-mtime'', ''ignore-file-atime'', ''ignore-file-ctime'',
       ''ignore-image-timestamps''])"

definition ignoreFileTimestampsAlias :: aliasRule where
  "ignoreFileTimestampsAlias =
     (''ignore-file-timestamps'',
      [''ignore-file-mtime'', ''ignore-file-atime'', ''ignore-file-ctime''])"

definition aliasRules :: "aliasRule list" where
  "aliasRules = [semanticAlias, ignoreTimestampsAlias, ignoreFileTimestampsAlias]"

definition applyAlias :: "'f conv \<Rightarrow> aliasRule \<Rightarrow> 'f FlagSet \<Rightarrow> error option \<times> 'f FlagSet" where
  "applyAlias cv a flags =
     (if fst (GetBool flags (fst a)) then setAll cv flags (snd a) else (None, flags))"

fun resolveInOrder :: "'f conv \<Rightarrow> aliasRule list \<Rightarrow> 'f FlagSet \<Rightarrow> error option \<times> 'f FlagSet" where
  "resolveInOrder cv [] flags = (None, flags)"
| "resolveInOrder cv (a # rs) flags =
     (case applyAlias cv a flags of
        (Some err, flags') \<Rightarrow> (Some err, flags')
      | (None, flags') \<Rightarrow> resolveInOrder cv rs flags')"

text \<open>The flags an alias rule list turns on in a flag set: the targets of the aliases that read true.\<close>

definition expansion :: "'f FlagSet \<Rightarrow> aliasRule list \<Rightarrow> string set" where
  "expansion flags rs = \<Union> (set (map (\<lambda>a. if fst (GetBool flags (fst a)) then set (snd a) else {}) rs))"

text \<open>A flag set after the flags of \<open>ns\<close>, all of them bool flags, were set to \<open>"true"\<close>.\<close>

definition turnedOn :: "string set \<Rightarrow> 'f FlagSet \<Rightarrow> 'f FlagSet" where
  "turnedOn ns flags =
     (\<lambda>n. if n \<in> ns then map_option (\<lambda>flag. flag\<lparr>Value := BoolValue True, Changed := True\<rparr>) (flags n)
          else flags n)"

text \<open>
  The flag set as \<open>NewCommand\<close> registers it (lines 93 to 116), every flag at its default
  and unchanged. \<open>one\<close> is the \<open>float64\<close> 1.0, the default of \<open>max-scale\<close>; the default of
  \<open>pull\<close> is \<open>imagegetter.PullMissing\<close>.
\<close>

definition unsetFlag :: "'f flag_value \<Rightarrow> 'f Flag" where
  "unsetFlag v = \<lparr>Value = v, Changed = False\<rparr>"

definition defaultFlags :: "'f \<Rightarrow> 'f FlagSet" where
  "defaultFlags one = map_of
     [(''ignore-timestamps'', unsetFlag (BoolValue False)),
      (''ignore-history'', unsetFlag (BoolValue False)),
      (''ignore-file-order'', unsetFlag (BoolValue False)),
      (''ignore-file-mode-redundant-bits'', unsetFlag (BoolValue False)),
      (''ignore-file-timestamps'', unsetFlag (BoolValue False)),
      (''ignore-file-mtime'', unsetFlag (BoolValue False)),
      (''ignore-file-atime'', unsetFlag (BoolValue False)),
      (''ignore-file-ctime'', unsetFlag (BoolValue False)),
      (''extra-ignore-file-permissions'', unsetFlag (BoolValue False)),
      (''extra-ignore-file-mode'', unsetFlag (BoolValue False)),
      (''extra-ignore-file-content'', unsetFlag (BoolValue False)),
      (''extra-ignore-layer-length-mismatch'', unsetFlag (BoolValue False)),
      (''extra-ignore-files'', unsetFlag (StringSliceValue [])),
      (''ignore-image-timestamps'', unsetFlag (BoolValue False)),
      (''ignore-image-name'', unsetFlag (BoolValue False)),
      (''ignore-tar-format'', unsetFlag (BoolValue False)),
      (''treat-canonical-paths-equal'', unsetFlag (BoolValue False)),
      (''semantic'', unsetFlag (BoolValue False)),
      (''verbose'', unsetFlag (BoolValue False)),
      (''report-file'', unsetFlag (StringValue '''')),
      (''report-dir'', unsetFlag (StringValue '''')),
      (''pull'', unsetFlag (StringValue ''missing'')),
      (''max-scale'', unsetFlag (Float64Value one))]"

section \<open>action: the collaborators\<close>

text \<open>
  What \<open>action\<close> leaves behind is a trace: the lines it logs through \<open>log.G(ctx)\<close>, and
  its calls of the image getter and of the diff engine, in the order they happen.
\<close>

datatype level = DebugLevel | InfoLevel | WarnLevel | ErrorLevel

record descriptor =
  MediaType :: string
  Digest :: string
  Size :: int

record image =
  Name :: string
  Target :: descriptor

text \<open>The report of \<open>diff.Diff\<close>: a tree, of which \<open>action\<close> reads the children only.\<close>

datatype report = Report (Children: "report list")

datatype handler = DefaultEventHandler | VerboseEventHandler

record 'f Options =
  IgnoreHistory :: bool
  IgnoreFileOrder :: bool
  IgnoreFileModeRedundantBits :: bool
  IgnoreFileMTime :: bool
  IgnoreFileATime :: bool
  IgnoreFileCTime :: bool
  IgnoreFilePermissions :: bool
  IgnoreFileMode :: bool
  IgnoreFileContent :: bool
  IgnoreLayerLengthMismatch :: bool
  IgnoreFiles :: "string list"
  IgnoreImageTimestamps :: bool
  IgnoreImageName :: bool
  IgnoreTarFormat :: bool
  CanonicalPaths :: bool
  ReportFile :: string
  ReportDir :: string
  EventHandler :: "handler option"
  MaxScale :: 'f

text \<open>\<open>var options diff.Options\<close>: every field at its zero value.\<close>

definition zeroOptions :: "'f::zero Options" where
  "zeroOptions =
     \<lparr>IgnoreHistory = False, IgnoreFileOrder = False, IgnoreFileModeRedundantBits = False,
      IgnoreFileMTime = False, IgnoreFileATime = False, IgnoreFileCTime = False,
      IgnoreFilePermissions = False, IgnoreFileMode = False, IgnoreFileContent = False,
      IgnoreLayerLengthMismatch = False, IgnoreFiles = [], IgnoreImageTimestamps = False,
      IgnoreImageName = False, IgnoreTarFormat = False, CanonicalPaths = False,
      ReportFile = '''', ReportDir = '''', EventHandler = None, MaxScale = 0\<rparr>"

definition zeroDescriptor :: descriptor where
  "zeroDescriptor = \<lparr>MediaType = '''', Digest = '''', Size = 0\<rparr>"

datatype event =
    Log level string
  | Call_Get string string
  | Call_Diff "descriptor list"

text \<open>
  The state of a run: the trace so far and the state \<open>'w\<close> of the backend's content
  store, which the image getter and the diff engine read and write.
\<close>

record 'w run =
  trace :: "event list"
  store :: 'w

definition logf :: "level \<Rightarrow> string \<Rightarrow> 'w run \<Rightarrow> 'w run" where
  "logf l m r = r\<lparr>trace := trace r @ [Log l m]\<rparr>"

text \<open>The messages logged at one level, in the order of the trace.\<close>

fun logsAt :: "level \<Rightarrow> event list \<Rightarrow> string list" where
  "logsAt l [] = []"
| "logsAt l (Log l' m # evs) = (if l' = l then m # logsAt l evs else logsAt l evs)"
| "logsAt l (Call_Get ref pullMode # evs) = logsAt l evs"
| "logsAt l (Call_Diff imageDescs # evs) = logsAt l evs"

text \<open>
  The functions \<open>action\<close> calls in other packages, as parameters. \<open>'p\<close> is the type of
  the platform list. \<open>FormatSlice\<close> gives the text that \<open>%v\<close> prints for
  \<open>platformutil.FormatSlice(plats)\<close>. \<open>Expand\<close> is \<open>localpathutil.Expand\<close> and returns a
  pair, as in Go: the path and the error. \<open>Get\<close> is \<open>ig.Get(ctx, ref, plats, pullMode)\<close>;
  \<open>Diff\<close> is \<open>diff.Diff\<close>, given the descriptors, the platforms its matcher
  (\<open>platforms.Any(plats...)\<close>) is made of and the options, and returns the report and the
  error, either of which may be nil.
\<close>

record ('p, 'f, 'w) env =
  NewBackend :: "error option"
  ParsePlatformFlags :: "'f FlagSet \<Rightarrow> error + 'p"
  FormatSlice :: "'p \<Rightarrow> string"
  Expand :: "string \<Rightarrow> string \<times> error option"
  imagegetter_New :: "error option"
  Get :: "'w \<Rightarrow> string \<Rightarrow> 'p \<Rightarrow> string \<Rightarrow> (error + image) \<times> 'w"
  Diff :: "'w \<Rightarrow> descriptor list \<Rightarrow> 'p \<Rightarrow> 'f Options \<Rightarrow> (report option \<times> error option) \<times> 'w"

text \<open>The verb \<open>%d\<close> on an integer.\<close>

fun digits :: "nat \<Rightarrow> string" where
  "digits n =
     (if n < 10 then [''0123456789'' ! n]
      else digits (n div 10) @ [''0123456789'' ! (n mod 10)])"

declare digits.simps [simp del]

definition fmt_d :: "int \<Rightarrow> string" where
  "fmt_d i = (if i < 0 then ''-'' @ digits (nat (- i)) else digits (nat i))"

text \<open>How \<open>action\<close> ends: it returns an error, it exits the process, or it panics.\<close>

datatype outcome = Returned error | Exited int | Panicked

section \<open>action, part by part\<close>

text \<open>\<open>x, err = ...; if err != nil { return err }\<close>\<close>

definition orReturn :: "'a \<times> error option \<Rightarrow> ('a \<Rightarrow> error + 'b) \<Rightarrow> error + 'b" where
  "orReturn r k = (case snd r of Some err \<Rightarrow> Inl err | None \<Rightarrow> k (fst r))"

text \<open>Lines 134 to 194: the fifteen options read from the flags, in the source's order.\<close>

definition action_ignores :: "'f::zero FlagSet \<Rightarrow> error + 'f Options" where
  "action_ignores flags =
     orReturn (GetBool flags ''ignore-history'') (\<lambda>ignoreHistory.
     orReturn (GetBool flags ''ignore-file-order'') (\<lambda>ignoreFileOrder.
     orReturn (GetBool flags ''ignore-file-mode-redundant-bits'') (\<lambda>ignoreFileModeRedundantBits.
     orReturn (GetBool flags ''ignore-file-mtime'') (\<lambda>ignoreFileMTime.
     orReturn (GetBool flags ''ignore-file-atime'') (\<lambda>ignoreFileATime.
     orReturn (GetBool flags ''ignore-file-ctime'') (\<lambda>ignoreFileCTime.
     orReturn (GetBool flags ''extra-ignore-file-permissions'') (\<lambda>ignoreFilePermissions.
     orReturn (GetBool flags ''extra-ignore-file-mode'') (\<lambda>ignoreFileMode.
     orReturn (GetBool flags ''extra-ignore-file-content'') (\<lambda>ignoreFileContent.
     orReturn (GetBool flags ''extra-ignore-layer-length-mismatch'') (\<lambda>ignoreLayerLengthMismatch.
     orReturn (GetStringSlice flags ''extra-ignore-files'') (\<lambda>ignoreFiles.
     orReturn (GetBool flags ''ignore-image-timestamps'') (\<lambda>ignoreImageTimestamps.
     orReturn (GetBool flags ''ignore-image-name'') (\<lambda>ignoreImageName.
     orReturn (GetBool flags ''ignore-tar-format'') (\<lambda>ignoreTarFormat.
     orReturn (GetBool flags ''treat-canonical-paths-equal'') (\<lambda>canonicalPaths.
     Inr (zeroOptions
       \<lparr>IgnoreHistory := ignoreHistory,
        IgnoreFileOrder := ignoreFileOrder,
        IgnoreFileModeRedundantBits := ignoreFileModeRedundantBits,
        IgnoreFileMTime := ignoreFileMTime,
        IgnoreFileATime := ignoreFileATime,
        IgnoreFileCTime := ignoreFileCTime,
        IgnoreFilePermissions := ignoreFilePermissions,
        IgnoreFileMode := ignoreFileMode,
        IgnoreFileContent := ignoreFileContent,
        IgnoreLayerLengthMismatch := ignoreLayerLengthMismatch,
        IgnoreFiles := ignoreFiles,
        IgnoreImageTimestamps := ignoreImageTimestamps,
        IgnoreImageName := ignoreImageName,
        IgnoreTarFormat := ignoreTarFormat,
        CanonicalPaths := canonicalPaths\<rparr>))))))))))))))))"

text \<open>
  Lines 195 to 205: \<open>report-file\<close>. The field \<open>options.ReportFile\<close> is assigned what
  \<open>Expand\<close> returned before the error is looked at, so the error message is made of the
  returned path.
\<close>

definition action_reportFile ::
  "'f conv \<Rightarrow> ('p, 'f, 'w) env \<Rightarrow> 'f FlagSet \<Rightarrow> 'f Options \<Rightarrow> 'w run \<Rightarrow> (error + 'f Options) \<times> 'w run" where
  "action_reportFile cv env flags options r =
     (case GetString flags ''report-file'' of
        (v, Some err) \<Rightarrow> (Inl err, r)
      | (v, None) \<Rightarrow>
          let options = options\<lparr>ReportFile := v\<rparr> in
          if ReportFile options \<noteq> '''' then
            let r = logf WarnLevel ''report-file is experimental. The file format is subject to change.'' r;
                expanded = Expand env (ReportFile options);
                options = options\<lparr>ReportFile := fst expanded\<rparr>
            in (case snd expanded of
                  Some err \<Rightarrow>
                    (Inl (Wrapf (''invalid report-file path '' @ quote cv (ReportFile options) @ '': '' @
                                 Error_msg err) err), r)
                | None \<Rightarrow> (Inr options, r))
          else (Inr options, r))"

text \<open>Lines 206 to 215: \<open>report-dir\<close>, the same without the warning.\<close>

definition action_reportDir ::
  "'f conv \<Rightarrow> ('p, 'f, 'w) env \<Rightarrow> 'f FlagSet \<Rightarrow> 'f Options \<Rightarrow> 'w run \<Rightarrow> (error + 'f Options) \<times> 'w run" where
  "action_reportDir cv env flags options r =
     (case GetString flags ''report-dir'' of
        (v, Some err) \<Rightarrow> (Inl err, r)
      | (v, None) \<Rightarrow>
          let options = options\<lparr>ReportDir := v\<rparr> in
          if ReportDir options \<noteq> '''' then
            let expanded = Expand env (ReportDir options);
                options = options\<lparr>ReportDir := fst expanded\<rparr>
            in (case snd expanded of
                  Some err \<Rightarrow>
                    (Inl (Wrapf (''invalid report-dir path '' @ quote cv (ReportDir options) @ '': '' @
                                 Error_msg err) err), r)
                | None \<Rightarrow> (Inr options, r))
          else (Inr options, r))"

text \<open>Lines 217 to 234: the event handler, \<open>max-scale\<close> and the pull mode.\<close>

definition action_handler :: "'f::zero FlagSet \<Rightarrow> 'f Options \<Rightarrow> error + ('f Options \<times> string)" where
  "action_handler flags options =
     (let options = options\<lparr>EventHandler := Some DefaultEventHandler\<rparr> in
      orReturn (GetBool flags ''verbose'') (\<lambda>verbose.
      let options = (if verbose then options\<lparr>EventHandler := Some VerboseEventHandler\<rparr> else options) in
      orReturn (GetFloat64 flags ''max-scale'') (\<lambda>maxScale.
      let options = options\<lparr>MaxScale := maxScale\<rparr> in
      orReturn (GetString flags ''pull'') (\<lambda>pullMode.
      Inr (options, pullMode)))))"

text \<open>
  Lines 241 to 249: the loop \<open>for i := 0; i < 2; i++\<close>. \<open>args[i]\<close> panics when \<open>args\<close> is
  too short (\<open>cobra.ExactArgs(2)\<close> has checked its length before).
\<close>

function getImages ::
  "'f conv \<Rightarrow> ('p, 'f, 'w) env \<Rightarrow> string list \<Rightarrow> 'p \<Rightarrow> string \<Rightarrow> nat \<Rightarrow> descriptor list \<Rightarrow> 'w run \<Rightarrow>
   (outcome + descriptor list) \<times> 'w run" where
  "getImages cv env args plats pullMode i imageDescs r =
     (if i < 2 then
        if length args \<le> i then (Inl Panicked, r)
        else
          (case Get env (store r) (args ! i) plats pullMode of
             (got, w) \<Rightarrow>
               let r = r\<lparr>trace := trace r @ [Call_Get (args ! i) pullMode], store := w\<rparr> in
               (case got of
                  Inl err \<Rightarrow> (Inl (Returned err), r)
                | Inr img \<Rightarrow>
                    getImages cv env args plats pullMode (i + 1) (imageDescs[i := Target img])
                      (logf DebugLevel
                         (''Input '' @ fmt_d (int i) @ '': Image '' @ quote cv (Name img) @
                          '' ('' @ Digest (Target img) @ '')'') r)))
      else (Inr imageDescs, r))"
  by pat_completeness auto
termination
  by (relation "measure (\<lambda>(cv, env, args, plats, pullMode, i, imageDescs, r). 2 - i)") auto

declare getImages.simps [simp del]

text \<open>The hint of line 260.\<close>

definition platformHint :: string where
  "platformHint = '' (Hint: specify `--platform` explicitly, e.g., `--platform=linux/amd64`)''"

text \<open>
  Lines 253 to 268, after \<open>diff.Diff\<close> has returned \<open>report\<close> and \<open>err\<close>: the exit code,
  the two log lines and \<open>os.Exit\<close>.
\<close>

definition action_exit :: "report option \<Rightarrow> error option \<Rightarrow> 'w run \<Rightarrow> outcome \<times> 'w run" where
  "action_exit report err r =
     (let exitCode = (0 :: int);
          exitCode = (case report of
                        None \<Rightarrow> exitCode
                      | Some rep \<Rightarrow> if length (Children rep) > 0 then 1 else exitCode);
          (exitCode, r) =
            (case err of
               None \<Rightarrow> (exitCode, r)
             | Some e \<Rightarrow>
                 let e = (if errors_Is e ErrUnavailable
                          then Wrapf (Error_msg e @ platformHint) e else e)
                 in (2, logf ErrorLevel (Error_msg e) r));
          r = (if exitCode \<noteq> 0
               then logf DebugLevel (''exiting with code '' @ fmt_d exitCode) r else r)
      in (Exited exitCode, r))"

text \<open>Lines 241 to 268: both images, then the comparison and the exit.\<close>

definition action_compare ::
  "'f conv \<Rightarrow> ('p, 'f, 'w) env \<Rightarrow> string list \<Rightarrow> 'p \<Rightarrow> string \<Rightarrow> 'f Options \<Rightarrow> 'w run \<Rightarrow> outcome \<times> 'w run" where
  "action_compare cv env args plats pullMode options r =
     (case getImages cv env args plats pullMode 0 [zeroDescriptor, zeroDescriptor] r of
        (Inl out, r) \<Rightarrow> (out, r)
      | (Inr imageDescs, r) \<Rightarrow>
          (case Diff env (store r) imageDescs plats options of
             ((report, err), w) \<Rightarrow>
               action_exit report err
                 (r\<lparr>trace := trace r @ [Call_Diff imageDescs], store := w\<rparr>)))"

text \<open>\<open>action\<close> (lines 120 to 271), started on the store \<open>w\<close> with an empty trace.\<close>

definition action ::
  "'f::zero conv \<Rightarrow> ('p, 'f, 'w) env \<Rightarrow> 'f FlagSet \<Rightarrow> string list \<Rightarrow> 'w \<Rightarrow> outcome \<times> 'w run" where
  "action cv env flags args w =
     (let r = \<lparr>trace = [], store = w\<rparr> in
      case NewBackend env of
        Some err \<Rightarrow> (Returned err, r)
      | None \<Rightarrow>
     (case ParsePlatformFlags env flags of
        Inl err \<Rightarrow> (Returned err, r)
      | Inr plats \<Rightarrow>
     (let r = logf InfoLevel (''Target platforms: '' @ FormatSlice env plats) r in
      case action_ignores flags of
        Inl err \<Rightarrow> (Returned err, r)
      | Inr options \<Rightarrow>
     (case action_reportFile cv env flags options r of
        (Inl err, r) \<Rightarrow> (Returned err, r)
      | (Inr options, r) \<Rightarrow>
     (case action_reportDir cv env flags options r of
        (Inl err, r) \<Rightarrow> (Returned err, r)
      | (Inr options, r) \<Rightarrow>
     (case action_handler flags options of
        Inl err \<Rightarrow> (Returned err, r)
      | Inr (options, pullMode) \<Rightarrow>
     (case imagegetter_New env of
        Some err \<Rightarrow> (Returned err, r)
      | None \<Rightarrow> action_compare cv env args plats pullMode options r)))))))"

section \<open>Concrete inputs\<close>

text \<open>
  A rendering of \<open>%q\<close> that is right for printable ASCII without quotes and backslashes,
  a CSV reader that is right for a value without commas and quotes, and a float parser
  that refuses everything; \<open>float64\<close> values are stood for by integers.
\<close>

definition exampleConv :: "int conv" where
  "exampleConv =
     \<lparr>quote = (\<lambda>s. [CHR 0x22] @ s @ [CHR 0x22]),
      readAsCSV = (\<lambda>s. Inr [s]),
      ParseFloat = (\<lambda>s. (0, Some (Leaf ''invalid syntax'')))\<rparr>"

text \<open>
  The command line \<open>--semantic --ignore-file-mtime=false\<close>, and the command lines that
  give one alias each, parsed into the default flag set.
\<close>

definition semanticFlags :: "int FlagSet" where
  "semanticFlags =
     (defaultFlags 1)
       (''semantic'' \<mapsto> \<lparr>Value = BoolValue True, Changed = True\<rparr>,
        ''ignore-file-mtime'' \<mapsto> \<lparr>Value = BoolValue False, Changed = True\<rparr>)"

definition timestampsFlags :: "int FlagSet" where
  "timestampsFlags =
     (defaultFlags 1)
       (''ignore-timestamps'' \<mapsto> \<lparr>Value = BoolValue True, Changed = True\<rparr>,
        ''ignore-file-timestamps'' \<mapsto> \<lparr>Value = BoolValue True, Changed = True\<rparr>)"

definition fileTimestampsFlags :: "int FlagSet" where
  "fileTimestampsFlags =
     (defaultFlags 1)
       (''ignore-file-timestamps'' \<mapsto> \<lparr>Value = BoolValue True, Changed = True\<rparr>)"

text \<open>A broken registry: \<open>semantic\<close> was registered as a string flag.\<close>

definition brokenFlags :: "int FlagSet" where
  "brokenFlags =
     (defaultFlags 1)
       (''semantic'' \<mapsto> \<lparr>Value = StringValue ''true'', Changed = True\<rparr>,
        ''ignore-timestamps'' \<mapsto> \<lparr>Value = BoolValue True, Changed = True\<rparr>)"

text \<open>The command line \<open>--report-file=out.json\<close>.\<close>

definition reportFileFlags :: "int FlagSet" where
  "reportFileFlags =
     (defaultFlags 1)
       (''report-file'' \<mapsto> \<lparr>Value = StringValue ''out.json'', Changed = True\<rparr>)"

text \<open>The command line \<open>--report-dir=out\<close>.\<close>

definition reportDirFlags :: "int FlagSet" where
  "reportDirFlags =
     (defaultFlags 1)
       (''report-dir'' \<mapsto> \<lparr>Value = StringValue ''out'', Changed = True\<rparr>)"

text \<open>
  A machine on which every backend call works, the image \<open>nosuch\<close> cannot be found, the
  images differ in one place, and \<open>Expand\<close> puts the home directory before a relative path.
\<close>

definition exampleImage :: "string \<Rightarrow> image" where
  "exampleImage ref =
     \<lparr>Name = ref, Target = \<lparr>MediaType = ''application/vnd.oci.image.index.v1+json'',
                           Digest = ''sha256:'' @ ref, Size = 1\<rparr>\<rparr>"

definition exampleEnv :: "(string list, int, unit) env" where
  "exampleEnv =
     \<lparr>NewBackend = None,
      ParsePlatformFlags = (\<lambda>flags. Inr [''linux/amd64'']),
      FormatSlice = (\<lambda>plats. ''[linux/amd64]''),
      Expand = (\<lambda>p. (''/home/user/'' @ p, None)),
      imagegetter_New = None,
      Get = (\<lambda>w ref plats pullMode.
               if ref = ''nosuch'' then (Inl (Leaf ''not found''), w)
               else (Inr (exampleImage ref), w)),
      Diff = (\<lambda>w imageDescs plats options. ((Some (Report [Report []]), None), w))\<rparr>"

text \<open>
  The same machine without a home directory: \<open>Expand\<close> fails and, as a Go function does
  on an error, returns the empty string with it.
\<close>

definition homelessEnv :: "(string list, int, unit) env" where
  "homelessEnv = exampleEnv\<lparr>Expand := (\<lambda>p. ('''', Some (Leaf ''$HOME is not defined'')))\<rparr>"

section \<open>Properties of the alias resolution\<close>


lemma ParseBool_true: "ParseBool ''true'' = Some True"
  by (simp add: ParseBool_def)

lemma Set_true_bool:
  "flags n = Some flag \<Longrightarrow> Type (Value flag) = ''bool'' \<Longrightarrow>
   Set cv flags n ''true'' = (None, flags(n \<mapsto> flag\<lparr>Value := BoolValue True, Changed := True\<rparr>))"
  by (cases "Value flag") (simp_all add: Set_def value_Set_def ParseBool_true)

lemma Set_other: "m \<noteq> n \<Longrightarrow> snd (Set cv flags n v) m = flags m"
  by (simp add: Set_def split: option.splits prod.splits)

lemma setAll_other: "m \<notin> set ns \<Longrightarrow> snd (setAll cv flags ns) m = flags m"
proof (induction ns arbitrary: flags)
  case Nil
  then show ?case by simp
next
  case (Cons n ns)
  obtain r flags' where S: "Set cv flags n ''true'' = (r, flags')" by (cases "Set cv flags n ''true''")
  have "flags' m = flags m" using Set_other[of m n cv flags "''true''"] S Cons.prems by simp
  then show ?case using Cons S by (cases r) simp_all
qed

lemma GetBool_cong: "flags n = flags' n \<Longrightarrow> GetBool flags n = GetBool flags' n"
  by (simp add: GetBool_def getFlagType_def)

lemma turnedOn_empty: "turnedOn {} flags = flags"
  by (simp add: turnedOn_def)

lemma turnedOn_twice: "turnedOn S (turnedOn T flags) = turnedOn (S \<union> T) flags"
  by (rule ext) (simp add: turnedOn_def option.map_comp comp_def)

lemma turnedOn_insert:
  "flags n = Some flag \<Longrightarrow>
   turnedOn S (flags(n \<mapsto> flag\<lparr>Value := BoolValue True, Changed := True\<rparr>)) = turnedOn (insert n S) flags"
  by (rule ext) (auto simp: turnedOn_def)

lemma hasType_bool_upd:
  "hasType flags (m, ''bool'') \<Longrightarrow>
   hasType (flags(n \<mapsto> flag\<lparr>Value := BoolValue True, Changed := True\<rparr>)) (m, ''bool'')"
  by (simp add: hasType_def)

lemma setAll_bools:
  "\<forall>n\<in>set ns. hasType flags (n, ''bool'') \<Longrightarrow> setAll cv flags ns = (None, turnedOn (set ns) flags)"
proof (induction ns arbitrary: flags)
  case Nil
  then show ?case by (simp add: turnedOn_empty)
next
  case (Cons n ns)
  from Cons.prems obtain flag where F: "flags n = Some flag" "Type (Value flag) = ''bool''"
    by (auto simp: hasType_def split: option.splits)
  let ?flags' = "flags(n \<mapsto> flag\<lparr>Value := BoolValue True, Changed := True\<rparr>)"
  have S: "Set cv flags n ''true'' = (None, ?flags')" using Set_true_bool[of flags n flag cv] F by simp
  have "\<forall>m\<in>set ns. hasType ?flags' (m, ''bool'')"
    using Cons.prems by (simp add: hasType_bool_upd)
  then have "setAll cv ?flags' ns = (None, turnedOn (set ns) ?flags')" by (rule Cons.IH)
  then show ?case using S using turnedOn_insert[of flags n flag "set ns"] F(1) by simp
qed


lemma PreRunE_resolve: "PreRunE cv flags = resolveInOrder cv aliasRules flags"
  unfolding PreRunE_def aliasRules_def applyAlias_def semanticAlias_def
      ignoreTimestampsAlias_def ignoreFileTimestampsAlias_def resolveInOrder.simps fst_conv snd_conv
  by (rule refl)


lemma alias_name_not_target:
  "a \<in> set aliasRules \<Longrightarrow> b \<in> set aliasRules \<Longrightarrow> fst a \<notin> set (snd b)"
  by (auto simp: aliasRules_def semanticAlias_def ignoreTimestampsAlias_def
      ignoreFileTimestampsAlias_def)

lemma targets_subset:
  "a \<in> set aliasRules \<Longrightarrow> set (snd a) \<subseteq> set (snd semanticAlias)"
  by (auto simp: aliasRules_def semanticAlias_def ignoreTimestampsAlias_def
      ignoreFileTimestampsAlias_def)

lemma registered_targets:
  "registered flags \<Longrightarrow> \<forall>n\<in>set (snd semanticAlias). hasType flags (n, ''bool'')"
  by (simp add: registered_def registry_def semanticAlias_def)

lemma hasType_turnedOn:
  "hasType flags (n, ''bool'') \<Longrightarrow> hasType (turnedOn S flags) (n, ''bool'')"
  by (auto simp: hasType_def turnedOn_def split: option.splits)

lemma turnedOn_other: "n \<notin> S \<Longrightarrow> turnedOn S flags n = flags n"
  by (simp add: turnedOn_def)

lemma expansion_Nil: "expansion flags [] = {}"
  by (simp add: expansion_def)

lemma expansion_Cons:
  "expansion flags (a # rs) =
     (if fst (GetBool flags (fst a)) then set (snd a) else {}) \<union> expansion flags rs"
  by (simp add: expansion_def)

lemma expansion_cong:
  "\<forall>r\<in>set rs. flags' (fst r) = flags (fst r) \<Longrightarrow> expansion flags' rs = expansion flags rs"
proof (induction rs)
  case Nil
  then show ?case by (simp add: expansion_Nil)
next
  case (Cons a rs)
  have "GetBool flags' (fst a) = GetBool flags (fst a)"
    using Cons.prems by (intro GetBool_cong) simp
  then show ?case using Cons by (simp add: expansion_Cons)
qed

lemma expansion_set: "set rs = set rs' \<Longrightarrow> expansion flags rs = expansion flags rs'"
  by (simp add: expansion_def)

lemma applyAlias_bools:
  assumes "\<forall>n\<in>set (snd a). hasType flags (n, ''bool'')"
  shows "applyAlias cv a flags =
           (None, turnedOn (if fst (GetBool flags (fst a)) then set (snd a) else {}) flags)"
  using setAll_bools[OF assms, of cv] by (simp add: applyAlias_def turnedOn_empty)

lemma applyAlias_other: "m \<notin> set (snd a) \<Longrightarrow> snd (applyAlias cv a flags) m = flags m"
  by (simp add: applyAlias_def setAll_other)

lemma resolve_turnedOn:
  "set rs \<subseteq> set aliasRules \<Longrightarrow> \<forall>n\<in>set (snd semanticAlias). hasType flags (n, ''bool'') \<Longrightarrow>
   resolveInOrder cv rs flags = (None, turnedOn (expansion flags rs) flags)"
proof (induction rs arbitrary: flags)
  case Nil
  then show ?case by (simp add: expansion_Nil turnedOn_empty)
next
  case (Cons a rs)
  define A where "A = (if fst (GetBool flags (fst a)) then set (snd a) else {})"
  have a: "a \<in> set aliasRules" and rs: "set rs \<subseteq> set aliasRules" using Cons.prems(1) by auto
  have sub: "set (snd a) \<subseteq> set (snd semanticAlias)" by (rule targets_subset[OF a])
  have "\<forall>n\<in>set (snd a). hasType flags (n, ''bool'')" using sub Cons.prems(2) by blast
  then have step: "applyAlias cv a flags = (None, turnedOn A flags)"
    unfolding A_def by (rule applyAlias_bools)
  have bools': "\<forall>n\<in>set (snd semanticAlias). hasType (turnedOn A flags) (n, ''bool'')"
    using Cons.prems(2) by (simp add: hasType_turnedOn)
  have "\<forall>r\<in>set rs. turnedOn A flags (fst r) = flags (fst r)"
  proof
    fix r assume "r \<in> set rs"
    then have "fst r \<notin> set (snd a)" using alias_name_not_target[of r a] a rs by blast
    then have "fst r \<notin> A" by (simp add: A_def)
    then show "turnedOn A flags (fst r) = flags (fst r)" by (rule turnedOn_other)
  qed
  then have ex: "expansion (turnedOn A flags) rs = expansion flags rs" by (rule expansion_cong)
  have "resolveInOrder cv rs (turnedOn A flags) =
          (None, turnedOn (expansion (turnedOn A flags) rs) (turnedOn A flags))"
    using rs bools' by (rule Cons.IH)
  then show ?case
    using step ex by (simp add: turnedOn_twice expansion_Cons A_def Un_commute)
qed

lemma resolve_frame:
  "set rs \<subseteq> set aliasRules \<Longrightarrow> n \<notin> expansion flags rs \<Longrightarrow>
   snd (resolveInOrder cv rs flags) n = flags n"
proof (induction rs arbitrary: flags)
  case Nil
  then show ?case by simp
next
  case (Cons a rs)
  obtain r flags' where step: "applyAlias cv a flags = (r, flags')"
    by (cases "applyAlias cv a flags")
  have a: "a \<in> set aliasRules" and rs: "set rs \<subseteq> set aliasRules" using Cons.prems(1) by auto
  have other: "m \<notin> set (snd a) \<Longrightarrow> flags' m = flags m" for m
    using applyAlias_other[of m a cv flags] step by simp
  have n: "flags' n = flags n"
  proof (cases "fst (GetBool flags (fst a))")
    case True
    then have "n \<notin> set (snd a)" using Cons.prems(2) by (simp add: expansion_Cons)
    then show ?thesis by (rule other)
  next
    case False
    then show ?thesis using step by (simp add: applyAlias_def)
  qed
  show ?case
  proof (cases r)
    case (Some e)
    then show ?thesis using step n by simp
  next
    case None
    have "\<forall>r\<in>set rs. flags' (fst r) = flags (fst r)"
      using alias_name_not_target a rs other by blast
    then have "expansion flags' rs = expansion flags rs" by (rule expansion_cong)
    then have "n \<notin> expansion flags' rs" using Cons.prems(2) by (simp add: expansion_Cons)
    then have "snd (resolveInOrder cv rs flags') n = flags' n" using rs Cons.IH by blast
    then show ?thesis using step None n by simp
  qed
qed

lemma PreRunE_registered:
  "registered flags \<Longrightarrow> PreRunE cv flags = (None, turnedOn (expansion flags aliasRules) flags)"
  using resolve_turnedOn[of aliasRules flags cv] registered_targets[of flags]
  by (simp add: PreRunE_resolve)

lemma GetBool_err: "snd (GetBool flags n) \<noteq> None \<Longrightarrow> \<not> fst (GetBool flags n)"
  by (auto simp: GetBool_def getFlagType_def split: option.splits flag_value.splits)

lemma GetBool_hasType:
  "hasType flags (n, ''bool'') \<Longrightarrow> GetBool flags n = (fst (GetBool flags n), None)"
  by (auto simp: GetBool_def getFlagType_def hasType_def split: option.splits flag_value.splits)

lemma GetBool_turnedOn_in:
  "n \<in> S \<Longrightarrow> hasType flags (n, ''bool'') \<Longrightarrow> GetBool (turnedOn S flags) n = (True, None)"
  by (auto simp: GetBool_def getFlagType_def hasType_def turnedOn_def split: option.splits)

lemma GetBool_turnedOn_mono:
  "GetBool flags n = (True, None) \<Longrightarrow> GetBool (turnedOn S flags) n = (True, None)"
  by (auto simp: GetBool_def getFlagType_def turnedOn_def split: option.splits flag_value.splits if_splits)

lemma GetBool_turnedOn_other:
  "n \<notin> S \<Longrightarrow> GetBool (turnedOn S flags) n = GetBool flags n"
  by (simp add: GetBool_def getFlagType_def turnedOn_def)


lemma expansion_subset: "expansion flags aliasRules \<subseteq> set (snd semanticAlias)"
  by (auto simp: expansion_def aliasRules_def semanticAlias_def ignoreTimestampsAlias_def
      ignoreFileTimestampsAlias_def split: if_splits)

lemma registered_default: "registered (defaultFlags one)"
  by (simp add: registered_def registry_def hasType_def defaultFlags_def unsetFlag_def)

lemma registered_upd:
  "registered flags \<Longrightarrow> hasType flags (n, Type v) \<Longrightarrow>
   registered (flags(n \<mapsto> \<lparr>Value = v, Changed = c\<rparr>))"
  by (auto simp: registered_def list_all_iff hasType_def split: option.splits)

lemma hasType_default_bool:
  "n \<in> set (snd semanticAlias) \<union> {''semantic'', ''ignore-timestamps'', ''ignore-file-timestamps''} \<Longrightarrow>
   hasType (defaultFlags one) (n, ''bool'')"
  using registered_default[of one]
  by (auto simp: registered_def registry_def semanticAlias_def)

lemma registered_semanticFlags: "registered semanticFlags"
  unfolding semanticFlags_def
  by (intro registered_upd registered_default) (simp_all add: hasType_def defaultFlags_def unsetFlag_def)

lemma registered_timestampsFlags: "registered timestampsFlags"
  unfolding timestampsFlags_def
  by (intro registered_upd registered_default) (simp_all add: hasType_def defaultFlags_def unsetFlag_def)

lemma registered_fileTimestampsFlags: "registered fileTimestampsFlags"
  unfolding fileTimestampsFlags_def
  by (intro registered_upd registered_default) (simp_all add: hasType_def defaultFlags_def unsetFlag_def)

lemma expansion_semantic:
  "fst (GetBool flags ''semantic'') \<Longrightarrow> set (snd semanticAlias) \<subseteq> expansion flags aliasRules"
  by (simp add: aliasRules_def expansion_Cons) (simp add: semanticAlias_def)

lemma expansion_timestamps:
  "fst (GetBool flags ''ignore-timestamps'') \<Longrightarrow>
   set (snd ignoreTimestampsAlias) \<subseteq> expansion flags aliasRules"
  by (simp add: aliasRules_def expansion_Cons) (auto simp: ignoreTimestampsAlias_def)

lemma expansion_fileTimestamps:
  "fst (GetBool flags ''ignore-file-timestamps'') \<Longrightarrow>
   set (snd ignoreFileTimestampsAlias) \<subseteq> expansion flags aliasRules"
  by (simp add: aliasRules_def expansion_Cons) (auto simp: ignoreFileTimestampsAlias_def)

text \<open>
  Claim C2. On a flag set of this command in which \<open>semantic\<close> reads true, \<open>PreRunE\<close>
  returns no error and each of the ten flags of the \<open>semantic\<close> list reads true afterwards,
  whatever its value was before. And whatever the aliases are, a flag that read true before
  \<open>PreRunE\<close> reads true after it: no expansion turns a flag off.
\<close>

theorem semantic_resolves_true:
  assumes "registered flags"
  shows "(GetBool flags ''semantic'' = (True, None) \<longrightarrow>
            fst (PreRunE cv flags) = None \<and>
            (\<forall>n\<in>set [''ignore-history'', ''ignore-file-order'', ''ignore-file-mode-redundant-bits'',
                      ''ignore-file-mtime'', ''ignore-file-atime'', ''ignore-file-ctime'',
                      ''ignore-image-timestamps'', ''ignore-image-name'', ''ignore-tar-format'',
                      ''treat-canonical-paths-equal''].
               GetBool (snd (PreRunE cv flags)) n = (True, None))) \<and>
         (\<forall>n. GetBool flags n = (True, None) \<longrightarrow> GetBool (snd (PreRunE cv flags)) n = (True, None))"
proof -
  have P: "PreRunE cv flags = (None, turnedOn (expansion flags aliasRules) flags)"
    using assms by (rule PreRunE_registered)
  have bools: "\<forall>n\<in>set (snd semanticAlias). hasType flags (n, ''bool'')"
    using assms by (rule registered_targets)
  have mono: "\<forall>n. GetBool flags n = (True, None) \<longrightarrow> GetBool (snd (PreRunE cv flags)) n = (True, None)"
    by (simp add: P GetBool_turnedOn_mono)
  have sem: "GetBool (snd (PreRunE cv flags)) n = (True, None)"
    if "GetBool flags ''semantic'' = (True, None)" "n \<in> set (snd semanticAlias)" for n
  proof -
    have "n \<in> expansion flags aliasRules"
      using that expansion_semantic[of flags] by auto
    then show ?thesis using bools that(2) by (simp add: P GetBool_turnedOn_in)
  qed
  have "\<forall>n\<in>set (snd semanticAlias). GetBool flags ''semantic'' = (True, None) \<longrightarrow>
          GetBool (snd (PreRunE cv flags)) n = (True, None)"
    using sem by blast
  then show ?thesis using mono by (simp add: P semanticAlias_def)
qed

text \<open>
  The command line \<open>--semantic --ignore-file-mtime=false\<close>: the explicit \<open>false\<close> is
  overridden.
\<close>

theorem semantic_resolves_true_witness:
  "registered semanticFlags \<and> GetBool semanticFlags ''semantic'' = (True, None) \<and>
   GetBool semanticFlags ''ignore-file-mtime'' = (False, None) \<and>
   fst (PreRunE exampleConv semanticFlags) = None \<and>
   GetBool (snd (PreRunE exampleConv semanticFlags)) ''ignore-file-mtime'' = (True, None) \<and>
   GetBool (snd (PreRunE exampleConv semanticFlags)) ''treat-canonical-paths-equal'' = (True, None)"
proof -
  have s: "GetBool semanticFlags ''semantic'' = (True, None)"
    by (simp add: semanticFlags_def GetBool_def getFlagType_def)
  have m: "GetBool semanticFlags ''ignore-file-mtime'' = (False, None)"
    by (simp add: semanticFlags_def GetBool_def getFlagType_def)
  show ?thesis
    using semantic_resolves_true[OF registered_semanticFlags, of exampleConv] s m
      registered_semanticFlags by simp
qed


lemma expansion_only_fileTimestamps:
  "\<not> fst (GetBool flags ''semantic'') \<Longrightarrow> \<not> fst (GetBool flags ''ignore-timestamps'') \<Longrightarrow>
   expansion flags aliasRules \<subseteq> set (snd ignoreFileTimestampsAlias)"
  by (simp add: aliasRules_def expansion_Cons expansion_Nil)
     (simp add: semanticAlias_def ignoreTimestampsAlias_def)

text \<open>
  Claim C3. On a flag set of this command, \<open>ignore-timestamps\<close> turns on the three file
  timestamp flags and \<open>ignore-image-timestamps\<close>; \<open>ignore-file-timestamps\<close> turns on the
  three file timestamp flags, and when neither \<open>semantic\<close> nor \<open>ignore-timestamps\<close> is
  given, those three are the only flags that \<open>PreRunE\<close> can have changed, so
  \<open>ignore-image-timestamps\<close> keeps its value.
\<close>

theorem timestamp_aliases_resolve:
  assumes "registered flags"
  shows "(GetBool flags ''ignore-timestamps'' = (True, None) \<longrightarrow>
            (\<forall>n\<in>set [''ignore-file-mtime'', ''ignore-file-atime'', ''ignore-file-ctime'',
                      ''ignore-image-timestamps''].
               GetBool (snd (PreRunE cv flags)) n = (True, None))) \<and>
         (GetBool flags ''ignore-file-timestamps'' = (True, None) \<longrightarrow>
            (\<forall>n\<in>set [''ignore-file-mtime'', ''ignore-file-atime'', ''ignore-file-ctime''].
               GetBool (snd (PreRunE cv flags)) n = (True, None))) \<and>
         (\<not> fst (GetBool flags ''semantic'') \<and> \<not> fst (GetBool flags ''ignore-timestamps'') \<longrightarrow>
            (\<forall>n. n \<notin> set [''ignore-file-mtime'', ''ignore-file-atime'', ''ignore-file-ctime''] \<longrightarrow>
               snd (PreRunE cv flags) n = flags n))"
proof -
  have P: "PreRunE cv flags = (None, turnedOn (expansion flags aliasRules) flags)"
    using assms by (rule PreRunE_registered)
  have bools: "\<forall>n\<in>set (snd semanticAlias). hasType flags (n, ''bool'')"
    using assms by (rule registered_targets)
  have on: "GetBool (snd (PreRunE cv flags)) n = (True, None)"
    if "n \<in> expansion flags aliasRules" for n
  proof -
    have "n \<in> set (snd semanticAlias)" using that expansion_subset by blast
    then show ?thesis using bools that by (simp add: P GetBool_turnedOn_in)
  qed
  have a: "GetBool flags ''ignore-timestamps'' = (True, None) \<longrightarrow>
            (\<forall>n\<in>set (snd ignoreTimestampsAlias). GetBool (snd (PreRunE cv flags)) n = (True, None))"
  proof (intro impI ballI)
    fix n
    assume "GetBool flags ''ignore-timestamps'' = (True, None)" "n \<in> set (snd ignoreTimestampsAlias)"
    then have "n \<in> expansion flags aliasRules" using expansion_timestamps[of flags] by auto
    then show "GetBool (snd (PreRunE cv flags)) n = (True, None)" by (rule on)
  qed
  have b: "GetBool flags ''ignore-file-timestamps'' = (True, None) \<longrightarrow>
            (\<forall>n\<in>set (snd ignoreFileTimestampsAlias). GetBool (snd (PreRunE cv flags)) n = (True, None))"
  proof (intro impI ballI)
    fix n
    assume "GetBool flags ''ignore-file-timestamps'' = (True, None)"
      "n \<in> set (snd ignoreFileTimestampsAlias)"
    then have "n \<in> expansion flags aliasRules" using expansion_fileTimestamps[of flags] by auto
    then show "GetBool (snd (PreRunE cv flags)) n = (True, None)" by (rule on)
  qed
  have c: "\<not> fst (GetBool flags ''semantic'') \<and> \<not> fst (GetBool flags ''ignore-timestamps'') \<longrightarrow>
            (\<forall>n. n \<notin> set (snd ignoreFileTimestampsAlias) \<longrightarrow> snd (PreRunE cv flags) n = flags n)"
  proof (intro impI allI)
    fix n
    assume h: "\<not> fst (GetBool flags ''semantic'') \<and> \<not> fst (GetBool flags ''ignore-timestamps'')"
      and n: "n \<notin> set (snd ignoreFileTimestampsAlias)"
    have "n \<notin> expansion flags aliasRules" using expansion_only_fileTimestamps[of flags] h n by blast
    then show "snd (PreRunE cv flags) n = flags n" by (simp add: P turnedOn_other)
  qed
  show ?thesis
    using a b c unfolding ignoreTimestampsAlias_def ignoreFileTimestampsAlias_def snd_conv
    by blast
qed

text \<open>
  The command lines \<open>--ignore-timestamps --ignore-file-timestamps\<close> and
  \<open>--ignore-file-timestamps\<close>.
\<close>

theorem timestamp_aliases_resolve_witness:
  "(registered timestampsFlags \<and> GetBool timestampsFlags ''ignore-timestamps'' = (True, None) \<and>
    GetBool timestampsFlags ''ignore-file-timestamps'' = (True, None) \<and>
    GetBool (snd (PreRunE exampleConv timestampsFlags)) ''ignore-image-timestamps'' = (True, None) \<and>
    GetBool (snd (PreRunE exampleConv timestampsFlags)) ''ignore-file-ctime'' = (True, None)) \<and>
   (registered fileTimestampsFlags \<and>
    GetBool fileTimestampsFlags ''ignore-file-timestamps'' = (True, None) \<and>
    \<not> fst (GetBool fileTimestampsFlags ''semantic'') \<and>
    \<not> fst (GetBool fileTimestampsFlags ''ignore-timestamps'') \<and>
    GetBool (snd (PreRunE exampleConv fileTimestampsFlags)) ''ignore-file-atime'' = (True, None) \<and>
    snd (PreRunE exampleConv fileTimestampsFlags) ''ignore-image-timestamps'' =
      fileTimestampsFlags ''ignore-image-timestamps'' \<and>
    GetBool fileTimestampsFlags ''ignore-image-timestamps'' = (False, None))"
proof -
  have t: "GetBool timestampsFlags ''ignore-timestamps'' = (True, None)"
          "GetBool timestampsFlags ''ignore-file-timestamps'' = (True, None)"
    by (simp_all add: timestampsFlags_def GetBool_def getFlagType_def)
  have f: "GetBool fileTimestampsFlags ''ignore-file-timestamps'' = (True, None)"
          "GetBool fileTimestampsFlags ''semantic'' = (False, None)"
          "GetBool fileTimestampsFlags ''ignore-timestamps'' = (False, None)"
          "GetBool fileTimestampsFlags ''ignore-image-timestamps'' = (False, None)"
    by (simp_all add: fileTimestampsFlags_def GetBool_def getFlagType_def defaultFlags_def unsetFlag_def)
  show ?thesis
    using timestamp_aliases_resolve[OF registered_timestampsFlags, of exampleConv]
      timestamp_aliases_resolve[OF registered_fileTimestampsFlags, of exampleConv]
      t f registered_timestampsFlags registered_fileTimestampsFlags
    by simp
qed

text \<open>
  Claim C4. On a flag set of this command, the three alias rules applied in any order
  (any list that is a permutation of the three) give the error and the flag set that
  \<open>PreRunE\<close> gives, and \<open>PreRunE\<close> is the three rules in the order \<open>semantic\<close>,
  \<open>ignore-timestamps\<close>, \<open>ignore-file-timestamps\<close>.
\<close>

theorem alias_order_irrelevant:
  assumes "registered flags" and "mset rs = mset aliasRules"
  shows "resolveInOrder cv rs flags = PreRunE cv flags \<and>
         PreRunE cv flags = resolveInOrder cv aliasRules flags"
proof -
  have s: "set rs = set aliasRules" using assms(2) by (rule mset_eq_setD)
  have bools: "\<forall>n\<in>set (snd semanticAlias). hasType flags (n, ''bool'')"
    using assms(1) by (rule registered_targets)
  have "resolveInOrder cv rs flags = (None, turnedOn (expansion flags rs) flags)"
    using s bools by (intro resolve_turnedOn) simp_all
  moreover have "expansion flags rs = expansion flags aliasRules" using s by (rule expansion_set)
  ultimately show ?thesis using PreRunE_registered[OF assms(1), of cv] by (simp add: PreRunE_resolve)
qed

text \<open>The order \<open>ignore-file-timestamps\<close>, \<open>semantic\<close>, \<open>ignore-timestamps\<close>.\<close>

theorem alias_order_irrelevant_witness:
  "registered timestampsFlags \<and>
   mset [ignoreFileTimestampsAlias, semanticAlias, ignoreTimestampsAlias] = mset aliasRules \<and>
   resolveInOrder exampleConv [ignoreFileTimestampsAlias, semanticAlias, ignoreTimestampsAlias]
     timestampsFlags = PreRunE exampleConv timestampsFlags"
proof -
  have m: "mset [ignoreFileTimestampsAlias, semanticAlias, ignoreTimestampsAlias] = mset aliasRules"
    by (simp add: aliasRules_def)
  show ?thesis
    using alias_order_irrelevant[OF registered_timestampsFlags m, of exampleConv]
      registered_timestampsFlags m by simp
qed


lemma applyAlias_skip: "\<not> fst (GetBool flags (fst a)) \<Longrightarrow> applyAlias cv a flags = (None, flags)"
  by (simp add: applyAlias_def)

lemma applyAlias_keeps_read:
  "n \<notin> set (snd a) \<Longrightarrow> GetBool (snd (applyAlias cv a flags)) n = GetBool flags n"
  by (intro GetBool_cong applyAlias_other)

lemma resolve_skip_second:
  assumes "\<not> fst (GetBool flags (fst b))" and "fst b \<notin> set (snd a)"
  shows "resolveInOrder cv (a # b # rs) flags = resolveInOrder cv (a # rs) flags"
proof -
  obtain r flags' where step: "applyAlias cv a flags = (r, flags')"
    by (cases "applyAlias cv a flags")
  have "GetBool flags' (fst b) = GetBool flags (fst b)"
    using applyAlias_keeps_read[OF assms(2), of cv flags] step by simp
  then have "applyAlias cv b flags' = (None, flags')" using assms(1) by (simp add: applyAlias_skip)
  then show ?thesis using step by (cases r) simp_all
qed

lemma resolve_skip_third:
  assumes "\<not> fst (GetBool flags (fst c))" and "fst c \<notin> set (snd a)" and "fst c \<notin> set (snd b)"
  shows "resolveInOrder cv [a, b, c] flags = resolveInOrder cv [a, b] flags"
proof -
  obtain r flags' where step: "applyAlias cv a flags = (r, flags')"
    by (cases "applyAlias cv a flags")
  have "GetBool flags' (fst c) = GetBool flags (fst c)"
    using applyAlias_keeps_read[OF assms(2), of cv flags] step by simp
  then have "\<not> fst (GetBool flags' (fst c))" using assms(1) by simp
  then have "resolveInOrder cv [b, c] flags' = resolveInOrder cv [b] flags'"
    using resolve_skip_second[of flags' c b cv "[]"] assms(3) by simp
  then show ?thesis using step by (cases r) simp_all
qed

text \<open>
  Claim C9. A \<open>GetBool\<close> that returns an error returns false with it, and \<open>PreRunE\<close>
  drops the error: when the read of an alias fails, \<open>PreRunE\<close> does exactly what the
  blocks of the other two aliases do, in their order, and returns what they return.
\<close>

theorem alias_read_error_skips:
  "(snd (GetBool flags a) \<noteq> None \<longrightarrow> fst (GetBool flags a) = False) \<and>
   (snd (GetBool flags ''semantic'') \<noteq> None \<longrightarrow>
      PreRunE cv flags = resolveInOrder cv [ignoreTimestampsAlias, ignoreFileTimestampsAlias] flags) \<and>
   (snd (GetBool flags ''ignore-timestamps'') \<noteq> None \<longrightarrow>
      PreRunE cv flags = resolveInOrder cv [semanticAlias, ignoreFileTimestampsAlias] flags) \<and>
   (snd (GetBool flags ''ignore-file-timestamps'') \<noteq> None \<longrightarrow>
      PreRunE cv flags = resolveInOrder cv [semanticAlias, ignoreTimestampsAlias] flags)"
proof (intro conjI impI)
  assume "snd (GetBool flags a) \<noteq> None"
  then show "fst (GetBool flags a) = False" using GetBool_err by blast
next
  assume "snd (GetBool flags ''semantic'') \<noteq> None"
  then have "\<not> fst (GetBool flags (fst semanticAlias))"
    using GetBool_err by (simp add: semanticAlias_def)
  then have "applyAlias cv semanticAlias flags = (None, flags)" by (rule applyAlias_skip)
  then show "PreRunE cv flags = resolveInOrder cv [ignoreTimestampsAlias, ignoreFileTimestampsAlias] flags"
    by (simp add: PreRunE_resolve aliasRules_def)
next
  assume "snd (GetBool flags ''ignore-timestamps'') \<noteq> None"
  then have "\<not> fst (GetBool flags (fst ignoreTimestampsAlias))"
    using GetBool_err by (simp add: ignoreTimestampsAlias_def)
  moreover have "fst ignoreTimestampsAlias \<notin> set (snd semanticAlias)"
    by (simp add: ignoreTimestampsAlias_def semanticAlias_def)
  ultimately show "PreRunE cv flags = resolveInOrder cv [semanticAlias, ignoreFileTimestampsAlias] flags"
    unfolding PreRunE_resolve aliasRules_def by (rule resolve_skip_second)
next
  assume "snd (GetBool flags ''ignore-file-timestamps'') \<noteq> None"
  then have "\<not> fst (GetBool flags (fst ignoreFileTimestampsAlias))"
    using GetBool_err by (simp add: ignoreFileTimestampsAlias_def)
  moreover have "fst ignoreFileTimestampsAlias \<notin> set (snd semanticAlias)"
    by (simp add: ignoreFileTimestampsAlias_def semanticAlias_def)
  moreover have "fst ignoreFileTimestampsAlias \<notin> set (snd ignoreTimestampsAlias)"
    by (simp add: ignoreFileTimestampsAlias_def ignoreTimestampsAlias_def)
  ultimately show "PreRunE cv flags = resolveInOrder cv [semanticAlias, ignoreTimestampsAlias] flags"
    unfolding PreRunE_resolve aliasRules_def by (rule resolve_skip_third)
qed

text \<open>
  A registry in which \<open>semantic\<close> is a string flag, with \<open>--semantic=true
  --ignore-timestamps\<close>: the read fails, nothing of the \<open>semantic\<close> list is turned on,
  \<open>PreRunE\<close> returns nil and \<open>ignore-timestamps\<close> is expanded.
\<close>

theorem alias_read_error_skips_witness:
  "snd (GetBool brokenFlags ''semantic'') \<noteq> None \<and>
   fst (GetBool brokenFlags ''semantic'') = False \<and>
   PreRunE exampleConv brokenFlags =
     resolveInOrder exampleConv [ignoreTimestampsAlias, ignoreFileTimestampsAlias] brokenFlags \<and>
   fst (resolveInOrder exampleConv [ignoreTimestampsAlias, ignoreFileTimestampsAlias] brokenFlags) = None \<and>
   GetBool (snd (resolveInOrder exampleConv [ignoreTimestampsAlias, ignoreFileTimestampsAlias] brokenFlags))
     ''ignore-history'' = (False, None) \<and>
   GetBool (snd (resolveInOrder exampleConv [ignoreTimestampsAlias, ignoreFileTimestampsAlias] brokenFlags))
     ''ignore-file-mtime'' = (True, None)"
proof -
  have e: "snd (GetBool brokenFlags ''semantic'') \<noteq> None"
    by (simp add: brokenFlags_def GetBool_def getFlagType_def)
  have t: "fst (GetBool brokenFlags ''ignore-timestamps'')"
    by (simp add: brokenFlags_def GetBool_def getFlagType_def)
  have f: "\<not> fst (GetBool brokenFlags ''ignore-file-timestamps'')"
    by (simp add: brokenFlags_def GetBool_def getFlagType_def defaultFlags_def unsetFlag_def)
  have b: "\<forall>n\<in>set (snd ignoreTimestampsAlias). hasType brokenFlags (n, ''bool'')"
    by (simp add: ignoreTimestampsAlias_def brokenFlags_def hasType_def defaultFlags_def unsetFlag_def)
  have a1: "applyAlias exampleConv ignoreTimestampsAlias brokenFlags =
              (None, turnedOn (set (snd ignoreTimestampsAlias)) brokenFlags)"
    using applyAlias_bools[OF b, of exampleConv] t by (simp add: ignoreTimestampsAlias_def)
  have f': "\<not> fst (GetBool (turnedOn (set (snd ignoreTimestampsAlias)) brokenFlags)
                  (fst ignoreFileTimestampsAlias))"
    using f by (simp add: GetBool_turnedOn_other ignoreTimestampsAlias_def ignoreFileTimestampsAlias_def)
  have r: "resolveInOrder exampleConv [ignoreTimestampsAlias, ignoreFileTimestampsAlias] brokenFlags =
             (None, turnedOn (set (snd ignoreTimestampsAlias)) brokenFlags)"
    using a1 applyAlias_skip[OF f', of exampleConv] by simp
  have h: "GetBool (turnedOn (set (snd ignoreTimestampsAlias)) brokenFlags) ''ignore-history'' = (False, None)"
    by (simp add: GetBool_turnedOn_other ignoreTimestampsAlias_def)
       (simp add: brokenFlags_def GetBool_def getFlagType_def defaultFlags_def unsetFlag_def)
  have m: "GetBool (turnedOn (set (snd ignoreTimestampsAlias)) brokenFlags) ''ignore-file-mtime'' = (True, None)"
    using b by (intro GetBool_turnedOn_in) (simp_all add: ignoreTimestampsAlias_def)
  show ?thesis
    using alias_read_error_skips[of brokenFlags "''semantic''" exampleConv] e r h m by simp
qed

text \<open>
  Claim C10. \<open>PreRunE\<close> leaves a flag as it was (its value and its \<open>Changed\<close> mark)
  unless the flag is in the list of an alias that reads true. In particular the flags
  that are in no list keep what the command line gave them, whatever the aliases are: the
  \<open>extra-\<close> flags, \<open>verbose\<close>, \<open>report-file\<close>, \<open>report-dir\<close>, \<open>pull\<close>, \<open>max-scale\<close>, and
  the three aliases themselves. This holds on every flag set, and also when \<open>PreRunE\<close>
  returns an error.
\<close>

theorem alias_resolution_frame:
  "(\<forall>n. n \<notin> expansion flags aliasRules \<longrightarrow> snd (PreRunE cv flags) n = flags n) \<and>
   (\<forall>n\<in>set [''extra-ignore-file-permissions'', ''extra-ignore-file-mode'',
             ''extra-ignore-file-content'', ''extra-ignore-layer-length-mismatch'',
             ''extra-ignore-files'', ''verbose'', ''report-file'', ''report-dir'', ''pull'',
             ''max-scale'', ''semantic'', ''ignore-timestamps'', ''ignore-file-timestamps''].
      snd (PreRunE cv flags) n = flags n)"
proof -
  have frame: "n \<notin> expansion flags aliasRules \<Longrightarrow> snd (PreRunE cv flags) n = flags n" for n
    using resolve_frame[of aliasRules n flags cv] by (simp add: PreRunE_resolve)
  have out: "n \<notin> set (snd semanticAlias) \<Longrightarrow> snd (PreRunE cv flags) n = flags n" for n
    using frame expansion_subset by blast
  have "\<forall>n\<in>set [''extra-ignore-file-permissions'', ''extra-ignore-file-mode'',
             ''extra-ignore-file-content'', ''extra-ignore-layer-length-mismatch'',
             ''extra-ignore-files'', ''verbose'', ''report-file'', ''report-dir'', ''pull'',
             ''max-scale'', ''semantic'', ''ignore-timestamps'', ''ignore-file-timestamps''].
          n \<notin> set (snd semanticAlias)"
    by (simp add: semanticAlias_def)
  then show ?thesis using frame out by blast
qed

text \<open>
  The command line \<open>--ignore-file-timestamps\<close>: \<open>ignore-history\<close> is in the list of
  \<open>semantic\<close> only, which is off, and keeps its default.
\<close>

theorem alias_resolution_frame_witness:
  "''ignore-history'' \<notin> expansion fileTimestampsFlags aliasRules \<and>
   snd (PreRunE exampleConv fileTimestampsFlags) ''ignore-history'' =
     fileTimestampsFlags ''ignore-history'' \<and>
   snd (PreRunE exampleConv fileTimestampsFlags) ''report-file'' = fileTimestampsFlags ''report-file''"
proof -
  have f: "\<not> fst (GetBool fileTimestampsFlags ''semantic'')"
          "\<not> fst (GetBool fileTimestampsFlags ''ignore-timestamps'')"
    by (simp_all add: fileTimestampsFlags_def GetBool_def getFlagType_def defaultFlags_def unsetFlag_def)
  have "''ignore-history'' \<notin> set (snd ignoreFileTimestampsAlias)"
    by (simp add: ignoreFileTimestampsAlias_def)
  then have n: "''ignore-history'' \<notin> expansion fileTimestampsFlags aliasRules"
    using expansion_only_fileTimestamps[OF f] by blast
  show ?thesis
    using alias_resolution_frame[of fileTimestampsFlags exampleConv] n by simp
qed

section \<open>Properties of action\<close>


lemma digits_small: "n < 10 \<Longrightarrow> digits n = [''0123456789'' ! n]"
  by (simp add: digits.simps)

lemma fmt_d_0: "fmt_d 0 = ''0''"
  by (simp add: fmt_d_def digits_small)

lemma fmt_d_1: "fmt_d 1 = ''1''"
  by (simp add: fmt_d_def digits_small)

lemma fmt_d_2: "fmt_d 2 = ''2''"
  by (simp add: fmt_d_def digits_small)

lemma logsAt_append: "logsAt l (xs @ ys) = logsAt l xs @ logsAt l ys"
  by (induction l xs rule: logsAt.induct) simp_all

lemma action_exit_status:
  "fst (action_exit report err r) =
     Exited (if err \<noteq> None then 2
             else if report \<noteq> None \<and> length (Children (the report)) > 0 then 1 else 0)"
  by (cases report; cases err) (simp_all add: action_exit_def Let_def)

lemma action_exit_trace_error:
  "trace (snd (action_exit report (Some e) r)) =
     trace r @ [Log ErrorLevel (if errors_Is e ErrUnavailable then Error_msg e @ platformHint
                                else Error_msg e),
                Log DebugLevel ''exiting with code 2'']"
  by (cases report) (simp_all add: action_exit_def Let_def logf_def fmt_d_2)

lemma action_exit_trace_ok:
  "trace (snd (action_exit report None r)) =
     trace r @ (if report \<noteq> None \<and> length (Children (the report)) > 0
                then [Log DebugLevel ''exiting with code 1''] else [])"
  by (cases report) (simp_all add: action_exit_def Let_def logf_def fmt_d_1)

lemma getImages_done: "getImages cv env args plats pullMode 2 imageDescs r = (Inr imageDescs, r)"
  by (simp add: getImages.simps)

lemma getImages_done': "getImages cv env args plats pullMode (Suc (Suc 0)) imageDescs r = (Inr imageDescs, r)"
  by (simp add: getImages.simps)

lemma run_eq: "r\<lparr>trace := t, store := w\<rparr> = \<lparr>trace = t, store = w\<rparr>"
  by (cases r) simp

lemma getImages_second:
  assumes "length args = 2"
  shows "getImages cv env args plats pullMode 1 imageDescs r =
     (case Get env (store r) (args ! 1) plats pullMode of
        (Inl err, w) \<Rightarrow>
          (Inl (Returned err), \<lparr>trace = trace r @ [Call_Get (args ! 1) pullMode], store = w\<rparr>)
      | (Inr img, w) \<Rightarrow>
          (Inr (imageDescs[1 := Target img]),
           \<lparr>trace = trace r @ [Call_Get (args ! 1) pullMode,
                Log DebugLevel (''Input 1: Image '' @ quote cv (Name img) @
                                '' ('' @ Digest (Target img) @ '')'')],
            store = w\<rparr>))"
  using assms
  by (subst getImages.simps, cases r)
     (simp add: getImages_done' logf_def fmt_d_1 Let_def split: prod.splits sum.splits)

lemma getImages_first:
  assumes "length args = 2"
  shows "getImages cv env args plats pullMode 0 imageDescs r =
     (case Get env (store r) (args ! 0) plats pullMode of
        (Inl err, w) \<Rightarrow>
          (Inl (Returned err), \<lparr>trace = trace r @ [Call_Get (args ! 0) pullMode], store = w\<rparr>)
      | (Inr img, w) \<Rightarrow>
          getImages cv env args plats pullMode 1 (imageDescs[0 := Target img])
            \<lparr>trace = trace r @ [Call_Get (args ! 0) pullMode,
                 Log DebugLevel (''Input 0: Image '' @ quote cv (Name img) @
                                 '' ('' @ Digest (Target img) @ '')'')],
             store = w\<rparr>)"
  using assms
  by (subst getImages.simps, cases r)
     (simp add: logf_def fmt_d_0 Let_def split: prod.splits sum.splits)

lemma getImages_logs:
  "l \<noteq> DebugLevel \<Longrightarrow>
   logsAt l (trace (snd (getImages cv env args plats pullMode i imageDescs r))) = logsAt l (trace r)"
proof (induction cv env args plats pullMode i imageDescs r rule: getImages.induct)
  case (1 cv env args plats pullMode i imageDescs r)
  show ?case
  proof (cases "i < 2 \<and> \<not> length args \<le> i")
    case False
    then show ?thesis by (subst getImages.simps) auto
  next
    case True
    obtain got w where g: "Get env (store r) (args ! i) plats pullMode = (got, w)"
      by (cases "Get env (store r) (args ! i) plats pullMode")
    show ?thesis
    proof (cases got)
      case (Inl err)
      then show ?thesis using True g
        by (subst getImages.simps) (simp add: logsAt_append)
    next
      case (Inr img)
      show ?thesis using True g Inr "1.prems" "1.IH"
        by (subst getImages.simps) (simp add: logsAt_append logf_def)
    qed
  qed
qed


lemma action_compare_got:
  "getImages cv env args plats pullMode 0 [zeroDescriptor, zeroDescriptor] r = (Inr imageDescs, r') \<Longrightarrow>
   Diff env (store r') imageDescs plats options = ((report, err), w) \<Longrightarrow>
   action_compare cv env args plats pullMode options r =
     action_exit report err \<lparr>trace = trace r' @ [Call_Diff imageDescs], store = w\<rparr>"
  by (simp add: action_compare_def run_eq)

text \<open>
  Claim C1. Whatever report and error the comparison returns, \<open>action\<close> exits the process
  with status 2 when the error is not nil, whatever the report; otherwise with status 1
  when the report is not nil and has a child; otherwise with status 0. The first line is
  the end of \<open>action\<close> on its own, the second is \<open>action\<close> from the acquisition of the
  images on, when both images were got and \<open>diff.Diff\<close> returned \<open>report\<close> and \<open>err\<close>.
\<close>

theorem exit_status_precedence:
  "fst (action_exit report err r) =
     Exited (if err \<noteq> None then 2
             else if report \<noteq> None \<and> length (Children (the report)) > 0 then 1 else 0) \<and>
   (getImages cv env args plats pullMode 0 [zeroDescriptor, zeroDescriptor] r0 = (Inr imageDescs, r') \<and>
    Diff env (store r') imageDescs plats options = ((report, err), w) \<longrightarrow>
      fst (action_compare cv env args plats pullMode options r0) =
        Exited (if err \<noteq> None then 2
                else if report \<noteq> None \<and> length (Children (the report)) > 0 then 1 else 0))"
proof (intro conjI impI)
  show "fst (action_exit report err r) =
     Exited (if err \<noteq> None then 2
             else if report \<noteq> None \<and> length (Children (the report)) > 0 then 1 else 0)"
    by (rule action_exit_status)
next
  assume "getImages cv env args plats pullMode 0 [zeroDescriptor, zeroDescriptor] r0 = (Inr imageDescs, r') \<and>
    Diff env (store r') imageDescs plats options = ((report, err), w)"
  then have "action_compare cv env args plats pullMode options r0 =
     action_exit report err \<lparr>trace = trace r' @ [Call_Diff imageDescs], store = w\<rparr>"
    by (elim conjE) (rule action_compare_got)
  then show "fst (action_compare cv env args plats pullMode options r0) =
        Exited (if err \<noteq> None then 2
                else if report \<noteq> None \<and> length (Children (the report)) > 0 then 1 else 0)"
    by (simp only: action_exit_status)
qed

lemma example_images:
  "getImages exampleConv exampleEnv [''a'', ''b''] [''linux/amd64''] ''missing'' 0
     [zeroDescriptor, zeroDescriptor] \<lparr>trace = [], store = ()\<rparr> =
   (Inr [Target (exampleImage ''a''), Target (exampleImage ''b'')],
    \<lparr>trace = [Call_Get ''a'' ''missing'',
              Log DebugLevel (''Input 0: Image '' @ quote exampleConv ''a'' @ '' (sha256:a)''),
              Call_Get ''b'' ''missing'',
              Log DebugLevel (''Input 1: Image '' @ quote exampleConv ''b'' @ '' (sha256:b)'')],
     store = ()\<rparr>)"
  by (simp add: getImages_first getImages_second[unfolded One_nat_def] exampleEnv_def exampleImage_def)

text \<open>
  A report with one child and an error at once: status 2. And the two images \<open>a\<close> and
  \<open>b\<close> on the example machine, whose diff engine reports one difference: status 1.
\<close>

theorem exit_status_precedence_witness:
  "fst (action_exit (Some (Report [Report []])) (Some (Leaf ''broken layer''))
          \<lparr>trace = [], store = ()\<rparr>) = Exited 2 \<and>
   fst (action_compare exampleConv exampleEnv [''a'', ''b''] [''linux/amd64''] ''missing'' zeroOptions
          \<lparr>trace = [], store = ()\<rparr>) = Exited 1"
proof -
  have d: "Diff exampleEnv (store \<lparr>trace = [Call_Get ''a'' ''missing'',
              Log DebugLevel (''Input 0: Image '' @ quote exampleConv ''a'' @ '' (sha256:a)''),
              Call_Get ''b'' ''missing'',
              Log DebugLevel (''Input 1: Image '' @ quote exampleConv ''b'' @ '' (sha256:b)'')],
             store = ()\<rparr>)
            [Target (exampleImage ''a''), Target (exampleImage ''b'')] [''linux/amd64''] zeroOptions =
           ((Some (Report [Report []]), None), ())"
    by (simp add: exampleEnv_def)
  have one: "fst (action_exit (Some (Report [Report []])) (Some (Leaf ''broken layer''))
          \<lparr>trace = [], store = ()\<rparr>) = Exited 2"
    using exit_status_precedence[THEN conjunct1, of "Some (Report [Report []])"
        "Some (Leaf ''broken layer'')" "\<lparr>trace = [], store = ()\<rparr>"]
    by simp
  have two: "fst (action_compare exampleConv exampleEnv [''a'', ''b''] [''linux/amd64''] ''missing''
          zeroOptions \<lparr>trace = [], store = ()\<rparr>) = Exited 1"
    using exit_status_precedence[where report = "Some (Report [Report []])" and err = None
        and r = "\<lparr>trace = [], store = ()\<rparr>" and cv = exampleConv and env = exampleEnv
        and args = "[''a'', ''b'']" and plats = "[''linux/amd64'']" and pullMode = "''missing''"
        and ?r0.0 = "\<lparr>trace = [], store = ()\<rparr>"
        and imageDescs = "[Target (exampleImage ''a''), Target (exampleImage ''b'')]"
        and r' = "\<lparr>trace = [Call_Get ''a'' ''missing'',
              Log DebugLevel (''Input 0: Image '' @ quote exampleConv ''a'' @ '' (sha256:a)''),
              Call_Get ''b'' ''missing'',
              Log DebugLevel (''Input 1: Image '' @ quote exampleConv ''b'' @ '' (sha256:b)'')],
             store = ()\<rparr>"
        and options = zeroOptions and w = "()"]
      example_images d
    by simp
  show ?thesis using one two by simp
qed

lemma action_exit_error_logs:
  "logsAt ErrorLevel (trace (snd (action_exit report (Some e) r))) =
     logsAt ErrorLevel (trace r) @
       [if errors_Is e ErrUnavailable
        then Error_msg e @ '' (Hint: specify `--platform` explicitly, e.g., `--platform=linux/amd64`)''
        else Error_msg e]"
  by (simp add: action_exit_trace_error logsAt_append platformHint_def)

text \<open>
  Claim C5. When the comparison returns an error, \<open>action\<close> logs one line at error level
  for it and no other: the message of the error followed by the platform hint when
  \<open>errors.Is\<close> finds \<open>ErrUnavailable\<close> in it, the message of the error as it is
  otherwise. The first line is the end of \<open>action\<close> on its own; the second is \<open>action\<close>
  from the acquisition of the images on, which logs nothing else at error level.
\<close>

theorem unavailable_error_logged_with_hint:
  "logsAt ErrorLevel (trace (snd (action_exit report (Some e) r))) =
     logsAt ErrorLevel (trace r) @
       [if errors_Is e ErrUnavailable
        then Error_msg e @ '' (Hint: specify `--platform` explicitly, e.g., `--platform=linux/amd64`)''
        else Error_msg e] \<and>
   (getImages cv env args plats pullMode 0 [zeroDescriptor, zeroDescriptor] r0 = (Inr imageDescs, r') \<and>
    Diff env (store r') imageDescs plats options = ((report, Some e), w) \<longrightarrow>
      logsAt ErrorLevel (trace (snd (action_compare cv env args plats pullMode options r0))) =
        logsAt ErrorLevel (trace r0) @
          [if errors_Is e ErrUnavailable
           then Error_msg e @ '' (Hint: specify `--platform` explicitly, e.g., `--platform=linux/amd64`)''
           else Error_msg e])"
proof (intro conjI impI)
  show "logsAt ErrorLevel (trace (snd (action_exit report (Some e) r))) =
     logsAt ErrorLevel (trace r) @
       [if errors_Is e ErrUnavailable
        then Error_msg e @ '' (Hint: specify `--platform` explicitly, e.g., `--platform=linux/amd64`)''
        else Error_msg e]"
    by (rule action_exit_error_logs)
next
  assume h: "getImages cv env args plats pullMode 0 [zeroDescriptor, zeroDescriptor] r0 = (Inr imageDescs, r') \<and>
    Diff env (store r') imageDescs plats options = ((report, Some e), w)"
  then have c: "action_compare cv env args plats pullMode options r0 =
     action_exit report (Some e) \<lparr>trace = trace r' @ [Call_Diff imageDescs], store = w\<rparr>"
    by (elim conjE) (rule action_compare_got)
  have "logsAt ErrorLevel (trace (snd (getImages cv env args plats pullMode 0
          [zeroDescriptor, zeroDescriptor] r0))) = logsAt ErrorLevel (trace r0)"
    by (rule getImages_logs) simp
  then have g: "logsAt ErrorLevel (trace r') = logsAt ErrorLevel (trace r0)" using h by simp
  show "logsAt ErrorLevel (trace (snd (action_compare cv env args plats pullMode options r0))) =
        logsAt ErrorLevel (trace r0) @
          [if errors_Is e ErrUnavailable
           then Error_msg e @ '' (Hint: specify `--platform` explicitly, e.g., `--platform=linux/amd64`)''
           else Error_msg e]"
    unfolding c action_exit_error_logs by (simp add: logsAt_append g)
qed

text \<open>
  An error that wraps \<open>ErrUnavailable\<close> is logged with the hint, another error without.
\<close>

theorem unavailable_error_logged_with_hint_witness:
  "logsAt ErrorLevel (trace (snd (action_exit None
       (Some (Wrapf ''no image for platform: unavailable'' ErrUnavailable))
       \<lparr>trace = [], store = ()\<rparr>))) =
     [''no image for platform: unavailable (Hint: specify `--platform` explicitly, e.g., `--platform=linux/amd64`)''] \<and>
   logsAt ErrorLevel (trace (snd (action_exit None (Some (Leaf ''unexpected EOF''))
       \<lparr>trace = [], store = ()\<rparr>))) = [''unexpected EOF'']"
  using unavailable_error_logged_with_hint[THEN conjunct1, of None
      "Wrapf ''no image for platform: unavailable'' ErrUnavailable" "\<lparr>trace = [], store = ()\<rparr>"]
    unavailable_error_logged_with_hint[THEN conjunct1, of None "Leaf ''unexpected EOF''"
      "\<lparr>trace = [], store = ()\<rparr>"]
  by simp


text \<open>
  Claim C7. With two positional arguments, \<open>action\<close> calls the image getter for the
  first argument and, when that call succeeds, logs the line of input 0 and calls the
  getter for the second argument on the store the first call left; when that call
  succeeds too it logs the line of input 1 and calls the diff engine with the
  descriptor of the first image at index 0 and the descriptor of the second at index 1.
  When the first or the second call returns an error, \<open>action\<close> returns that error and
  the trace ends with that call: the diff engine is not called.
\<close>

theorem images_acquired_in_order:
  assumes "length args = 2"
  shows "(Get env (store r) (args ! 0) plats pullMode = (Inl e, w0) \<longrightarrow>
            action_compare cv env args plats pullMode options r =
              (Returned e, \<lparr>trace = trace r @ [Call_Get (args ! 0) pullMode], store = w0\<rparr>)) \<and>
         (Get env (store r) (args ! 0) plats pullMode = (Inr img0, w0) \<and>
          Get env w0 (args ! 1) plats pullMode = (Inl e, w1) \<longrightarrow>
            action_compare cv env args plats pullMode options r =
              (Returned e,
               \<lparr>trace = trace r @
                  [Call_Get (args ! 0) pullMode,
                   Log DebugLevel (''Input 0: Image '' @ quote cv (Name img0) @
                                   '' ('' @ Digest (Target img0) @ '')''),
                   Call_Get (args ! 1) pullMode],
                store = w1\<rparr>)) \<and>
         (Get env (store r) (args ! 0) plats pullMode = (Inr img0, w0) \<and>
          Get env w0 (args ! 1) plats pullMode = (Inr img1, w1) \<and>
          Diff env w1 [Target img0, Target img1] plats options = ((report, err), w2) \<longrightarrow>
            action_compare cv env args plats pullMode options r =
              action_exit report err
                \<lparr>trace = trace r @
                   [Call_Get (args ! 0) pullMode,
                    Log DebugLevel (''Input 0: Image '' @ quote cv (Name img0) @
                                    '' ('' @ Digest (Target img0) @ '')''),
                    Call_Get (args ! 1) pullMode,
                    Log DebugLevel (''Input 1: Image '' @ quote cv (Name img1) @
                                    '' ('' @ Digest (Target img1) @ '')''),
                    Call_Diff [Target img0, Target img1]],
                 store = w2\<rparr>)"
proof (intro conjI impI)
  assume "Get env (store r) (args ! 0) plats pullMode = (Inl e, w0)"
  then show "action_compare cv env args plats pullMode options r =
              (Returned e, \<lparr>trace = trace r @ [Call_Get (args ! 0) pullMode], store = w0\<rparr>)"
    by (simp add: action_compare_def getImages_first[OF assms])
next
  assume "Get env (store r) (args ! 0) plats pullMode = (Inr img0, w0) \<and>
          Get env w0 (args ! 1) plats pullMode = (Inl e, w1)"
  then show "action_compare cv env args plats pullMode options r =
              (Returned e,
               \<lparr>trace = trace r @
                  [Call_Get (args ! 0) pullMode,
                   Log DebugLevel (''Input 0: Image '' @ quote cv (Name img0) @
                                   '' ('' @ Digest (Target img0) @ '')''),
                   Call_Get (args ! 1) pullMode],
                store = w1\<rparr>)"
    by (simp add: action_compare_def getImages_first[OF assms] getImages_second[OF assms, unfolded One_nat_def])
next
  assume "Get env (store r) (args ! 0) plats pullMode = (Inr img0, w0) \<and>
          Get env w0 (args ! 1) plats pullMode = (Inr img1, w1) \<and>
          Diff env w1 [Target img0, Target img1] plats options = ((report, err), w2)"
  then show "action_compare cv env args plats pullMode options r =
              action_exit report err
                \<lparr>trace = trace r @
                   [Call_Get (args ! 0) pullMode,
                    Log DebugLevel (''Input 0: Image '' @ quote cv (Name img0) @
                                    '' ('' @ Digest (Target img0) @ '')''),
                    Call_Get (args ! 1) pullMode,
                    Log DebugLevel (''Input 1: Image '' @ quote cv (Name img1) @
                                    '' ('' @ Digest (Target img1) @ '')''),
                    Call_Diff [Target img0, Target img1]],
                 store = w2\<rparr>"
    by (simp add: action_compare_def getImages_first[OF assms] getImages_second[OF assms, unfolded One_nat_def]
        zeroDescriptor_def)
qed

text \<open>
  On the example machine: the first image cannot be found; the second cannot be found;
  both are found.
\<close>

theorem images_acquired_in_order_witness:
  "action_compare exampleConv exampleEnv [''nosuch'', ''b''] [''linux/amd64''] ''missing'' zeroOptions
     \<lparr>trace = [], store = ()\<rparr> =
     (Returned (Leaf ''not found''), \<lparr>trace = [Call_Get ''nosuch'' ''missing''], store = ()\<rparr>) \<and>
   action_compare exampleConv exampleEnv [''a'', ''nosuch''] [''linux/amd64''] ''missing'' zeroOptions
     \<lparr>trace = [], store = ()\<rparr> =
     (Returned (Leaf ''not found''),
      \<lparr>trace = [Call_Get ''a'' ''missing'',
                Log DebugLevel (''Input 0: Image '' @ [CHR 0x22] @ ''a'' @ [CHR 0x22] @ '' (sha256:a)''),
                Call_Get ''nosuch'' ''missing''],
       store = ()\<rparr>) \<and>
   action_compare exampleConv exampleEnv [''a'', ''b''] [''linux/amd64''] ''missing'' zeroOptions
     \<lparr>trace = [], store = ()\<rparr> =
     action_exit (Some (Report [Report []])) None
       \<lparr>trace = [Call_Get ''a'' ''missing'',
                 Log DebugLevel (''Input 0: Image '' @ [CHR 0x22] @ ''a'' @ [CHR 0x22] @ '' (sha256:a)''),
                 Call_Get ''b'' ''missing'',
                 Log DebugLevel (''Input 1: Image '' @ [CHR 0x22] @ ''b'' @ [CHR 0x22] @ '' (sha256:b)''),
                 Call_Diff [Target (exampleImage ''a''), Target (exampleImage ''b'')]],
        store = ()\<rparr>"
proof -
  have one: "action_compare exampleConv exampleEnv [''nosuch'', ''b''] [''linux/amd64''] ''missing''
     zeroOptions \<lparr>trace = [], store = ()\<rparr> =
     (Returned (Leaf ''not found''), \<lparr>trace = [Call_Get ''nosuch'' ''missing''], store = ()\<rparr>)"
    using images_acquired_in_order[where args = "[''nosuch'', ''b'']"
        and env = exampleEnv and r = "\<lparr>trace = [], store = ()\<rparr>" and plats = "[''linux/amd64'']"
        and pullMode = "''missing''" and e = "Leaf ''not found''" and ?w0.0 = "()"
        and cv = exampleConv and options = zeroOptions, THEN conjunct1]
    by (simp add: exampleEnv_def)
  have two: "action_compare exampleConv exampleEnv [''a'', ''nosuch''] [''linux/amd64''] ''missing''
     zeroOptions \<lparr>trace = [], store = ()\<rparr> =
     (Returned (Leaf ''not found''),
      \<lparr>trace = [Call_Get ''a'' ''missing'',
                Log DebugLevel (''Input 0: Image '' @ [CHR 0x22] @ ''a'' @ [CHR 0x22] @ '' (sha256:a)''),
                Call_Get ''nosuch'' ''missing''],
       store = ()\<rparr>)"
    using images_acquired_in_order[where args = "[''a'', ''nosuch'']"
        and env = exampleEnv and r = "\<lparr>trace = [], store = ()\<rparr>" and plats = "[''linux/amd64'']"
        and pullMode = "''missing''" and e = "Leaf ''not found''" and ?w0.0 = "()" and ?w1.0 = "()"
        and ?img0.0 = "exampleImage ''a''" and cv = exampleConv and options = zeroOptions, THEN conjunct2, THEN conjunct1]
    by (simp add: exampleEnv_def exampleImage_def exampleConv_def)
  have three: "action_compare exampleConv exampleEnv [''a'', ''b''] [''linux/amd64''] ''missing''
     zeroOptions \<lparr>trace = [], store = ()\<rparr> =
     action_exit (Some (Report [Report []])) None
       \<lparr>trace = [Call_Get ''a'' ''missing'',
                 Log DebugLevel (''Input 0: Image '' @ [CHR 0x22] @ ''a'' @ [CHR 0x22] @ '' (sha256:a)''),
                 Call_Get ''b'' ''missing'',
                 Log DebugLevel (''Input 1: Image '' @ [CHR 0x22] @ ''b'' @ [CHR 0x22] @ '' (sha256:b)''),
                 Call_Diff [Target (exampleImage ''a''), Target (exampleImage ''b'')]],
        store = ()\<rparr>"
    using images_acquired_in_order[where args = "[''a'', ''b'']"
        and env = exampleEnv and r = "\<lparr>trace = [], store = ()\<rparr>" and plats = "[''linux/amd64'']"
        and pullMode = "''missing''" and ?w0.0 = "()" and ?w1.0 = "()" and ?w2.0 = "()"
        and ?img0.0 = "exampleImage ''a''" and ?img1.0 = "exampleImage ''b''"
        and report = "Some (Report [Report []])" and err = None
        and cv = exampleConv and options = zeroOptions, THEN conjunct2, THEN conjunct2]
    by (simp add: exampleEnv_def exampleImage_def exampleConv_def)
  show ?thesis using one two three by simp
qed


lemma registered_hasType: "registered flags \<Longrightarrow> nt \<in> set registry \<Longrightarrow> hasType flags nt"
  by (simp add: registered_def list_all_iff)

lemma GetBool_ok: "hasType flags (n, ''bool'') \<Longrightarrow> snd (GetBool flags n) = None"
  by (auto simp: GetBool_def getFlagType_def hasType_def split: option.splits flag_value.splits)

lemma GetStringSlice_ok: "hasType flags (n, ''stringSlice'') \<Longrightarrow> snd (GetStringSlice flags n) = None"
  by (auto simp: GetStringSlice_def getFlagType_def hasType_def split: option.splits flag_value.splits)

lemma orReturn_ok: "snd r = None \<Longrightarrow> orReturn r k = k (fst r)"
  by (simp add: orReturn_def)

lemma registered_bool_reads:
  assumes "registered flags" and "(n, ''bool'') \<in> set registry"
  shows "snd (GetBool flags n) = None"
  using registered_hasType[OF assms] by (rule GetBool_ok)

lemma action_ignores_registered:
  assumes "registered flags"
  shows "\<exists>options. action_ignores flags = Inr options"
proof -
  have b: "snd (GetBool flags ''ignore-history'') = None"
    "snd (GetBool flags ''ignore-file-order'') = None"
    "snd (GetBool flags ''ignore-file-mode-redundant-bits'') = None"
    "snd (GetBool flags ''ignore-file-mtime'') = None"
    "snd (GetBool flags ''ignore-file-atime'') = None"
    "snd (GetBool flags ''ignore-file-ctime'') = None"
    "snd (GetBool flags ''extra-ignore-file-permissions'') = None"
    "snd (GetBool flags ''extra-ignore-file-mode'') = None"
    "snd (GetBool flags ''extra-ignore-file-content'') = None"
    "snd (GetBool flags ''extra-ignore-layer-length-mismatch'') = None"
    "snd (GetBool flags ''ignore-image-timestamps'') = None"
    "snd (GetBool flags ''ignore-image-name'') = None"
    "snd (GetBool flags ''ignore-tar-format'') = None"
    "snd (GetBool flags ''treat-canonical-paths-equal'') = None"
    by (rule registered_bool_reads[OF assms], simp add: registry_def)+
  have s: "snd (GetStringSlice flags ''extra-ignore-files'') = None"
    by (rule GetStringSlice_ok, rule registered_hasType[OF assms]) (simp add: registry_def)
  show ?thesis unfolding action_ignores_def by (simp only: orReturn_ok b s) blast
qed

lemma action_reportFile_warn:
  "logsAt WarnLevel (trace (snd (action_reportFile cv env flags options r))) =
     logsAt WarnLevel (trace r) @
       (if fst (GetString flags ''report-file'') \<noteq> ''''
        then [''report-file is experimental. The file format is subject to change.''] else [])"
proof (cases "GetString flags ''report-file''")
  case (Pair v err)
  have z: "err \<noteq> None \<Longrightarrow> v = ''''"
    using Pair by (auto simp: GetString_def getFlagType_def split: option.splits flag_value.splits if_splits sum.splits)
  show ?thesis
  proof (cases err)
    case None
    then show ?thesis using Pair
      by (simp add: action_reportFile_def Let_def logf_def logsAt_append split: option.splits)
  next
    case (Some e)
    then show ?thesis using Pair z by (simp add: action_reportFile_def)
  qed
qed

lemma action_reportDir_run: "snd (action_reportDir cv env flags options r) = r"
  by (simp add: action_reportDir_def Let_def split: prod.splits option.splits)

lemma action_exit_logs:
  "l \<noteq> DebugLevel \<Longrightarrow> l \<noteq> ErrorLevel \<Longrightarrow>
   logsAt l (trace (snd (action_exit report err r))) = logsAt l (trace r)"
  by (cases err)
     (simp_all add: action_exit_trace_ok action_exit_trace_error logsAt_append)

lemma action_compare_logs:
  assumes "l \<noteq> DebugLevel" and "l \<noteq> ErrorLevel"
  shows "logsAt l (trace (snd (action_compare cv env args plats pullMode options r))) = logsAt l (trace r)"
proof -
  obtain res r' where g: "getImages cv env args plats pullMode 0 [zeroDescriptor, zeroDescriptor] r = (res, r')"
    by (cases "getImages cv env args plats pullMode 0 [zeroDescriptor, zeroDescriptor] r")
  have k: "logsAt l (trace r') = logsAt l (trace r)"
    using getImages_logs[OF assms(1), of cv env args plats pullMode 0 "[zeroDescriptor, zeroDescriptor]" r] g
    by simp
  show ?thesis
  proof (cases res)
    case (Inl out)
    then show ?thesis using g k by (simp add: action_compare_def)
  next
    case (Inr imageDescs)
    obtain report err w where d: "Diff env (store r') imageDescs plats options = ((report, err), w)"
      by (cases "Diff env (store r') imageDescs plats options") auto
    have "action_compare cv env args plats pullMode options r =
            action_exit report err \<lparr>trace = trace r' @ [Call_Diff imageDescs], store = w\<rparr>"
      using g Inr d by (intro action_compare_got) simp_all
    then show ?thesis using k by (simp add: action_exit_logs[OF assms] logsAt_append)
  qed
qed

lemma action_warnings:
  assumes "NewBackend env = None" and "ParsePlatformFlags env flags = Inr plats"
    and "action_ignores flags = Inr options"
  shows "logsAt WarnLevel (trace (snd (action cv env flags args w))) =
     (if fst (GetString flags ''report-file'') \<noteq> ''''
      then [''report-file is experimental. The file format is subject to change.''] else [])"
proof -
  define r1 :: "'c run" where "r1 = logf InfoLevel (''Target platforms: '' @ FormatSlice env plats) \<lparr>trace = [], store = w\<rparr>"
  obtain res2 r2 where f: "action_reportFile cv env flags options r1 = (res2, r2)"
    by (cases "action_reportFile cv env flags options r1")
  have w2: "logsAt WarnLevel (trace r2) =
     (if fst (GetString flags ''report-file'') \<noteq> ''''
      then [''report-file is experimental. The file format is subject to change.''] else [])"
    using action_reportFile_warn[of cv env flags options r1] f by (simp add: r1_def logf_def)
  have a: "action cv env flags args w =
     (case res2 of Inl err \<Rightarrow> (Returned err, r2)
      | Inr options \<Rightarrow>
     (case action_reportDir cv env flags options r2 of
        (Inl err, r) \<Rightarrow> (Returned err, r)
      | (Inr options, r) \<Rightarrow>
     (case action_handler flags options of
        Inl err \<Rightarrow> (Returned err, r)
      | Inr (options, pullMode) \<Rightarrow>
     (case imagegetter_New env of
        Some err \<Rightarrow> (Returned err, r)
      | None \<Rightarrow> action_compare cv env args plats pullMode options r))))"
    using assms f by (simp add: action_def r1_def)
  show ?thesis
  proof (cases res2)
    case (Inl err)
    then show ?thesis using a w2 by simp
  next
    case (Inr options2)
    obtain res3 r3 where d: "action_reportDir cv env flags options2 r2 = (res3, r3)"
      by (cases "action_reportDir cv env flags options2 r2")
    have r3: "r3 = r2" using action_reportDir_run[of cv env flags options2 r2] d by simp
    show ?thesis
      using a Inr d r3 w2
      by (auto simp: action_compare_logs split: sum.splits option.splits prod.splits)
  qed
qed


lemma registered_reportFileFlags: "registered reportFileFlags"
  unfolding reportFileFlags_def
  by (intro registered_upd registered_default) (simp_all add: hasType_def defaultFlags_def unsetFlag_def)

lemma registered_reportDirFlags: "registered reportDirFlags"
  unfolding reportDirFlags_def
  by (intro registered_upd registered_default) (simp_all add: hasType_def defaultFlags_def unsetFlag_def)

text \<open>
  Claim C8. The lines of \<open>action\<close> that read \<open>report-file\<close> add one warning, the one
  that calls the report file experimental, when the value read is not empty, and none
  when it is empty (an unreadable flag reads as empty); the lines that read \<open>report-dir\<close>
  leave the trace as it is. So a run of \<open>action\<close> on a flag set of this command that
  comes as far as these lines (the backend was made and the platform flags were parsed)
  logs that warning once when \<open>report-file\<close> is not empty, and no warning at all
  otherwise, however the run goes on.
\<close>

theorem report_file_warning_once:
  "logsAt WarnLevel (trace (snd (action_reportFile cv env flags options r))) =
     logsAt WarnLevel (trace r) @
       (if fst (GetString flags ''report-file'') \<noteq> ''''
        then [''report-file is experimental. The file format is subject to change.''] else []) \<and>
   snd (action_reportDir cv env flags options r) = r \<and>
   (registered flags \<and> NewBackend env = None \<and> ParsePlatformFlags env flags = Inr plats \<longrightarrow>
      logsAt WarnLevel (trace (snd (action cv env flags args w))) =
        (if fst (GetString flags ''report-file'') \<noteq> ''''
         then [''report-file is experimental. The file format is subject to change.''] else []))"
proof (intro conjI impI)
  show "logsAt WarnLevel (trace (snd (action_reportFile cv env flags options r))) =
     logsAt WarnLevel (trace r) @
       (if fst (GetString flags ''report-file'') \<noteq> ''''
        then [''report-file is experimental. The file format is subject to change.''] else [])"
    by (rule action_reportFile_warn)
next
  show "snd (action_reportDir cv env flags options r) = r" by (rule action_reportDir_run)
next
  assume h: "registered flags \<and> NewBackend env = None \<and> ParsePlatformFlags env flags = Inr plats"
  then obtain options0 where "action_ignores flags = Inr options0"
    using action_ignores_registered by blast
  then show "logsAt WarnLevel (trace (snd (action cv env flags args w))) =
        (if fst (GetString flags ''report-file'') \<noteq> ''''
         then [''report-file is experimental. The file format is subject to change.''] else [])"
    using h by (intro action_warnings) simp_all
qed

text \<open>
  On the example machine, \<open>--report-file=out.json\<close> logs the warning once and
  \<open>--report-dir=out\<close> logs no warning.
\<close>

theorem report_file_warning_once_witness:
  "registered reportFileFlags \<and> NewBackend exampleEnv = None \<and>
   ParsePlatformFlags exampleEnv reportFileFlags = Inr [''linux/amd64''] \<and>
   logsAt WarnLevel (trace (snd (action exampleConv exampleEnv reportFileFlags [''a'', ''b''] ()))) =
     [''report-file is experimental. The file format is subject to change.''] \<and>
   registered reportDirFlags \<and>
   logsAt WarnLevel (trace (snd (action exampleConv exampleEnv reportDirFlags [''a'', ''b''] ()))) = []"
proof -
  have e: "NewBackend exampleEnv = None" "ParsePlatformFlags exampleEnv reportFileFlags = Inr [''linux/amd64'']"
    "ParsePlatformFlags exampleEnv reportDirFlags = Inr [''linux/amd64'']"
    by (simp_all add: exampleEnv_def)
  have f: "fst (GetString reportFileFlags ''report-file'') = ''out.json''"
    by (simp add: reportFileFlags_def GetString_def getFlagType_def)
  have d: "fst (GetString reportDirFlags ''report-file'') = ''''"
    by (simp add: reportDirFlags_def GetString_def getFlagType_def defaultFlags_def unsetFlag_def)
  have one: "logsAt WarnLevel (trace (snd (action exampleConv exampleEnv reportFileFlags [''a'', ''b''] ()))) =
     [''report-file is experimental. The file format is subject to change.'']"
    using report_file_warning_once[where flags = reportFileFlags and env = exampleEnv
        and plats = "[''linux/amd64'']" and cv = exampleConv and args = "[''a'', ''b'']" and w = "()",
        THEN conjunct2, THEN conjunct2]
      registered_reportFileFlags e f by simp
  have two: "logsAt WarnLevel (trace (snd (action exampleConv exampleEnv reportDirFlags [''a'', ''b''] ()))) = []"
    using report_file_warning_once[where flags = reportDirFlags and env = exampleEnv
        and plats = "[''linux/amd64'']" and cv = exampleConv and args = "[''a'', ''b'']" and w = "()",
        THEN conjunct2, THEN conjunct2]
      registered_reportDirFlags e d by simp
  show ?thesis using one two registered_reportFileFlags registered_reportDirFlags e by simp
qed

text \<open>
  Claim C6, which the code does not meet. With \<open>--report-file=out.json\<close> (and with
  \<open>--report-dir=out\<close>) on a machine where \<open>Expand\<close> fails and returns the empty path with
  its error, \<open>action\<close> returns before it calls the image getter, and the error names the
  flag; the path in its message is the empty one that \<open>Expand\<close> returned, which line 201
  (line 211) has put into the option before line 203 (line 213) formats it, not the path
  the user gave.
\<close>

theorem report_path_error_names_returned_path:
  "action exampleConv homelessEnv reportFileFlags [''a'', ''b''] () =
     (Returned (Wrapf (''invalid report-file path '' @ [CHR 0x22, CHR 0x22] @ '': $HOME is not defined'')
                  (Leaf ''$HOME is not defined'')),
      \<lparr>trace = [Log InfoLevel ''Target platforms: [linux/amd64]'',
                Log WarnLevel ''report-file is experimental. The file format is subject to change.''],
       store = ()\<rparr>) \<and>
   action exampleConv homelessEnv reportDirFlags [''a'', ''b''] () =
     (Returned (Wrapf (''invalid report-dir path '' @ [CHR 0x22, CHR 0x22] @ '': $HOME is not defined'')
                  (Leaf ''$HOME is not defined'')),
      \<lparr>trace = [Log InfoLevel ''Target platforms: [linux/amd64]''], store = ()\<rparr>)"
proof -
  obtain o1 where o1: "action_ignores reportFileFlags = Inr o1"
    using action_ignores_registered[OF registered_reportFileFlags] by blast
  obtain o2 where o2: "action_ignores reportDirFlags = Inr o2"
    using action_ignores_registered[OF registered_reportDirFlags] by blast
  have f: "GetString reportFileFlags ''report-file'' = (''out.json'', None)"
    by (simp add: reportFileFlags_def GetString_def getFlagType_def)
  have d: "GetString reportDirFlags ''report-file'' = ('''', None)"
          "GetString reportDirFlags ''report-dir'' = (''out'', None)"
    by (simp_all add: reportDirFlags_def GetString_def getFlagType_def defaultFlags_def unsetFlag_def)
  have one: "action exampleConv homelessEnv reportFileFlags [''a'', ''b''] () =
     (Returned (Wrapf (''invalid report-file path '' @ [CHR 0x22, CHR 0x22] @ '': $HOME is not defined'')
                  (Leaf ''$HOME is not defined'')),
      \<lparr>trace = [Log InfoLevel ''Target platforms: [linux/amd64]'',
                Log WarnLevel ''report-file is experimental. The file format is subject to change.''],
       store = ()\<rparr>)"
    by (simp add: action_def o1 action_reportFile_def f homelessEnv_def exampleEnv_def exampleConv_def
        logf_def Let_def)
  have two: "action exampleConv homelessEnv reportDirFlags [''a'', ''b''] () =
     (Returned (Wrapf (''invalid report-dir path '' @ [CHR 0x22, CHR 0x22] @ '': $HOME is not defined'')
                  (Leaf ''$HOME is not defined'')),
      \<lparr>trace = [Log InfoLevel ''Target platforms: [linux/amd64]''], store = ()\<rparr>)"
    by (simp add: action_def o2 action_reportFile_def action_reportDir_def d homelessEnv_def
        exampleEnv_def exampleConv_def logf_def Let_def)
  show ?thesis using one two by simp
qed

end
